theory Spec2Isabelle
  imports Complex_Main
begin

section \<open>The lightweight variant (DevShield)\<close>

text \<open>
  The lightweight script keeps one record \<open>STATE = { open, reason, listeners }\<close> and a
  few DOM toggles. Subscribers are opaque host callbacks: the model names them by a
  number and logs every invocation together with the detail object passed. A callback
  that throws is swallowed by the \<open>try/catch\<close> of \<open>dispatch\<close>, so the log does not
  distinguish it. Callbacks and window event handlers are taken not to call back into
  the shield while a dispatch is running.
\<close>

type_synonym callback = nat

datatype detail =
    Change bool string
  | Tamper string "string option"
  | Undefined

record shield =
  state_open :: bool
  state_reason :: string
  state_listeners :: "callback list"
  banner_show :: bool
  blur_global :: bool
  badge_hidden :: bool
  consoleProbeOpen :: bool
  host_attached :: bool
  detectTimer :: bool
  sizeTimer :: bool
  window_events :: "(string \<times> detail) list"
  invocations :: "(callback \<times> detail) list"

text \<open>
  What the probes of both scripts read from the browser when a callback runs. Pixel
  counts are integers; elapsed times are the differences of two \<open>performance.now()\<close>
  readings, one per \<open>debugger\<close> statement the callback executes (indexed from 0).
  The remaining fields say how the console treats a logged probe object and whether its
  methods throw during the callback, which global helper names are present, what the
  style and performance APIs answer, and how the engine writes a number of 2^53 or more
  into a string.
\<close>

record browser =
  debugger_elapsed :: "nat \<Rightarrow> rat"
  outerWidth :: int
  innerWidth :: int
  outerHeight :: int
  innerHeight :: int
  screenWidth :: int
  screenHeight :: int
  console_coerces :: bool
  console_reads_id :: bool
  console_throws :: bool
  native_function_global :: "string \<Rightarrow> bool"
  truthy_global :: "string \<Rightarrow> bool"
  matchMedia_throws :: bool
  navigation_entries :: "(rat \<times> rat) list option"
  computed_position :: "string option"
  date_now :: nat
  large_number_text :: "int \<Rightarrow> string"

definition STATE0 :: shield where
  "STATE0 = \<lparr> state_open = False, state_reason = ''init'', state_listeners = [],
     banner_show = False, blur_global = False, badge_hidden = False,
     consoleProbeOpen = False, host_attached = True, detectTimer = False,
     sizeTimer = False, window_events = [], invocations = [] \<rparr>"

definition dispatch :: "string \<Rightarrow> detail \<Rightarrow> shield \<Rightarrow> shield" where
  "dispatch name d st =
     st\<lparr> window_events := window_events st @ [(name, d)],
         invocations := invocations st @ map (\<lambda>cb. (cb, d)) (state_listeners st) \<rparr>"

definition setBadgeVisible :: "bool \<Rightarrow> shield \<Rightarrow> shield" where
  "setBadgeVisible show st = st\<lparr> badge_hidden := \<not> show \<rparr>"

definition showBanner :: "bool \<Rightarrow> shield \<Rightarrow> shield" where
  "showBanner show st = st\<lparr> banner_show := show \<rparr>"

definition setGlobalBlur :: "bool \<Rightarrow> shield \<Rightarrow> shield" where
  "setGlobalBlur on st = st\<lparr> blur_global := on \<rparr>"

definition threshold :: rat where
  "threshold = 200"

definition digit_char :: "nat \<Rightarrow> char" where
  "digit_char d = char_of (48 + d)"

text \<open>The decimal digits of a number, most significant first, collected from the right.\<close>

fun decimal_digits :: "nat \<Rightarrow> nat list \<Rightarrow> nat list" where
  "decimal_digits n acc =
     (if n < 10 then n # acc else decimal_digits (n div 10) (n mod 10 # acc))"

text \<open>
  String concatenation with an integral number. Below 2^53 every integer is a double of
  its own and is written with all its digits. From there on the engine writes the
  shortest digits that read back as the same double, and from 10^21 on with an exponent;
  that text is taken from the browser.
\<close>

definition number_toString :: "browser \<Rightarrow> int \<Rightarrow> string" where
  "number_toString e i =
     (if \<bar>i\<bar> < 2 ^ 53
      then (let ds = map digit_char (decimal_digits (nat \<bar>i\<bar>) [])
            in if i < 0 then CHR ''-'' # ds else ds)
      else large_number_text e i)"

text \<open>\<open>Math.round\<close> rounds to the nearest integer, a tie towards plus infinity.\<close>

definition math_round :: "rat \<Rightarrow> int" where
  "math_round x = \<lfloor>x + 1 / 2\<rfloor>"

text \<open>
  A heuristic returns \<open>{ open: true, reason }\<close> or \<open>null\<close>; since \<open>open\<close> is always true
  in the object, the model returns the reason only.
\<close>

definition timeHeuristic :: "browser \<Rightarrow> string option" where
  "timeHeuristic e =
     (let dt = debugger_elapsed e 0
      in if dt > threshold
         then Some (''debugger-timing('' @ number_toString e (math_round dt) @ ''ms)'')
         else None)"

definition sizeHeuristic :: "browser \<Rightarrow> string option" where
  "sizeHeuristic e =
     (let gapW = \<bar>outerWidth e - innerWidth e\<bar>;
          gapH = \<bar>outerHeight e - innerHeight e\<bar>
      in if gapW > 160 \<or> gapH > 160 then Some ''viewport-gap'' else None)"

text \<open>
  The \<open>reason\<close> argument of \<open>setState\<close> is a string or \<open>undefined\<close>; \<open>!reason\<close> holds for
  \<open>undefined\<close> and for the empty string.
\<close>

definition falsy :: "string option \<Rightarrow> bool" where
  "falsy r = (case r of None \<Rightarrow> True | Some s \<Rightarrow> s = [])"

definition setState :: "bool \<Rightarrow> string option \<Rightarrow> shield \<Rightarrow> shield" where
  "setState opn reason st =
     (if state_open st = opn \<and> falsy reason then st
      else
        let st1 = st\<lparr> state_open := opn,
                       state_reason := (case reason of None \<Rightarrow> state_reason st
                                        | Some s \<Rightarrow> if s = [] then state_reason st else s) \<rparr>;
            st2 = showBanner opn st1;
            st3 = setGlobalBlur opn st2
        in dispatch ''youdai:devtools-change'' (Change (state_open st3) (state_reason st3)) st3)"

definition poll :: "browser \<Rightarrow> shield \<Rightarrow> shield" where
  "poll e st =
     (let st1 = st\<lparr> detectTimer := False \<rparr>;
          sig = (case timeHeuristic e of Some r \<Rightarrow> Some r | None \<Rightarrow> sizeHeuristic e);
          st2 = (case sig of Some r \<Rightarrow> setState True (Some r) st1
                           | None \<Rightarrow> setState False (Some ''poll'') st1)
      in st2\<lparr> detectTimer := True \<rparr>)"



text \<open>The \<open>toString\<close> hook of the console probe object.\<close>

definition consoleProbe_toString :: "shield \<Rightarrow> shield" where
  "consoleProbe_toString st = setState True (Some ''console-probe'') (st\<lparr> consoleProbeOpen := True \<rparr>)"

text \<open>
  \<open>logProbe\<close> logs the probe object; whether the console coerces it to a string is the
  browser's choice, and a throwing or missing console is swallowed.
\<close>

definition logProbe :: "bool \<Rightarrow> shield \<Rightarrow> shield" where
  "logProbe coerces st = (if coerces then consoleProbe_toString st else st)"

text \<open>The mutation observer that watches the shadow host, and the host being removed.\<close>

definition host_removed :: "shield \<Rightarrow> shield" where
  "host_removed st = st\<lparr> host_attached := False \<rparr>"

definition mo_callback :: "shield \<Rightarrow> shield" where
  "mo_callback st =
     (if \<not> host_attached st
      then dispatch ''youdai:tamper'' (Tamper ''overlay-removed'' None) (st\<lparr> host_attached := True \<rparr>)
      else st)"

definition integrity_check_failed :: "string \<Rightarrow> shield \<Rightarrow> shield" where
  "integrity_check_failed e st =
     dispatch ''youdai:tamper'' (Tamper ''integrity-check-failed'' (Some e)) st"

text \<open>
  The public API. \<open>STATE.listeners\<close> is a JavaScript \<open>Set\<close>: adding a member twice keeps
  one, and iteration follows insertion order.
\<close>

definition isOpen :: "shield \<Rightarrow> bool" where
  "isOpen st = state_open st"

definition onChange :: "callback \<Rightarrow> shield \<Rightarrow> shield" where
  "onChange cb st =
     (if cb \<in> set (state_listeners st) then st
      else st\<lparr> state_listeners := state_listeners st @ [cb] \<rparr>)"

definition unsubscribe :: "callback \<Rightarrow> shield \<Rightarrow> shield" where
  "unsubscribe cb st = st\<lparr> state_listeners := removeAll cb (state_listeners st) \<rparr>"

definition watermark :: "bool option \<Rightarrow> shield \<Rightarrow> shield" where
  "watermark show st = setBadgeVisible (show \<noteq> Some False) st"

definition blurSensitive :: "bool option \<Rightarrow> shield \<Rightarrow> shield" where
  "blurSensitive show st = setGlobalBlur (show \<noteq> Some False) st"

definition shield_ready :: "shield \<Rightarrow> shield" where
  "shield_ready st = dispatch ''youdai:shield-ready'' Undefined st"

text \<open>A sequence of decisions \<open>(open, reason)\<close> fed to the state update, oldest first.\<close>

fun feed :: "(bool \<times> string option) list \<Rightarrow> shield \<Rightarrow> shield" where
  "feed [] st = st"
| "feed ((b, r) # ds) st = feed ds (setState b r st)"

definition emits :: "bool \<Rightarrow> string option \<Rightarrow> shield \<Rightarrow> bool" where
  "emits b r st = (window_events (setState b r st) \<noteq> window_events st)"

text \<open>
  A browser in which nothing is unusual. Its debugger pauses are 0, so the text for
  large numbers is never asked for.
\<close>

definition quiet_env :: browser where
  "quiet_env = \<lparr> debugger_elapsed = (\<lambda>_. 0), outerWidth = 1280, innerWidth = 1280,
     outerHeight = 800, innerHeight = 720, screenWidth = 1280, screenHeight = 800,
     console_coerces = False, console_reads_id = False, console_throws = False,
     native_function_global = (\<lambda>_. False), truthy_global = (\<lambda>_. False),
     matchMedia_throws = False, navigation_entries = Some [],
     computed_position = Some ''absolute'', date_now = 0,
     large_number_text = (\<lambda>_. ''1e+21'') \<rparr>"


subsection \<open>Loading the lightweight script\<close>

text \<open>
  The page as the scripts see it at load: the parsed query of \<open>window.location.href\<close>
  (\<open>searchParams.get\<close> returns the first value of a key), whether a \<open>window\<close> exists,
  whether the document is still loading, and whether the script element can be found
  and is same-origin (the integrity check then fetches its source).
\<close>

record page =
  has_window :: bool
  query :: "(string \<times> string) list"
  readyState_loading :: bool
  script_same_origin :: bool



section \<open>The aggressive variant (EnhancedDevToolsProtection)\<close>

text \<open>
  The functions a page can reach through \<open>window.fetch\<close>, \<open>XMLHttpRequest.prototype.open\<close>
  and the globals the class replaces: the one found when the script loads (the
  underlying transport, called native here), the wrapper installed by
  \<open>interceptNetworkRequests\<close>, and the blocking replacements.
\<close>

datatype fetch_fn = NativeFetch | InterceptingFetch | RejectingFetch

datatype xhr_fn = NativeOpen | InterceptingOpen | ThrowingOpen

datatype global_fn = Native | Throwing

text \<open>The callbacks the class hands to \<open>setTimeout\<close>.\<close>

datatype task =
    TDetectByWindowSize
  | TDetectDevToolsMultipleMethods
  | TDetectByConsoleImproved
  | TElementCheck
  | TConfirmClosed
  | TShowOverlay

record protection =
  isDevToolsOpen :: bool
  protectionActive :: bool
  warningShown :: bool
  networkRequests :: "nat \<rightharpoonup> string option"
  originalFetch :: "fetch_fn option"
  originalXHR :: "xhr_fn option"
  consoleFloodInterval :: bool
  window_fetch :: fetch_fn
  xhr_open :: xhr_fn
  window_WebSocket :: global_fn
  window_EventSource :: global_fn
  window_eval :: global_fn
  window_Function :: global_fn
  console_wrapped :: bool
  body_protection_classes :: bool
  visual_lock :: bool
  css_injected :: bool
  dom_observer :: bool
  overlay_present :: bool
  overlay_observers :: nat
  timeouts :: "(nat \<times> task) list"
  intervals :: "nat list"
  listeners :: "string list"
  setup_on_ready :: bool

text \<open>The page before the script runs.\<close>

definition fresh :: protection where
  "fresh = \<lparr> isDevToolsOpen = False, protectionActive = False, warningShown = False,
     networkRequests = Map.empty, originalFetch = None, originalXHR = None,
     consoleFloodInterval = False, window_fetch = NativeFetch, xhr_open = NativeOpen,
     window_WebSocket = Native, window_EventSource = Native, window_eval = Native,
     window_Function = Native, console_wrapped = False, body_protection_classes = False,
     visual_lock = False, css_injected = False, dom_observer = False,
     overlay_present = False, overlay_observers = 0, timeouts = [], intervals = [],
     listeners = [], setup_on_ready = False \<rparr>"

subsection \<open>Exceptions\<close>

text \<open>
  A method either returns or throws, and what it has written to the instance before
  throwing stays written. A method of the model returns how it completed together with
  the record it leaves; \<open>and_then\<close> runs the rest of a body only after a return.
\<close>

datatype completion = Returned | Threw

definition and_then ::
  "completion \<times> protection \<Rightarrow> (protection \<Rightarrow> completion \<times> protection)
   \<Rightarrow> completion \<times> protection" where
  "and_then r f = (case r of (Threw, st) \<Rightarrow> (Threw, st) | (Returned, st) \<Rightarrow> f st)"

definition interceptNetworkRequests :: "protection \<Rightarrow> protection" where
  "interceptNetworkRequests st =
     st\<lparr> originalFetch := Some (window_fetch st), originalXHR := Some (xhr_open st),
         window_fetch := InterceptingFetch, xhr_open := InterceptingOpen \<rparr>"

subsection \<open>Reactions\<close>

text \<open>
  Removing the overlay node from \<open>document.body\<close> is seen by every mutation observer
  that \<open>showEnhancedProtectionOverlay\<close> has registered (none is ever disconnected); each
  schedules a recreation after 100 ms.
\<close>

definition overlay_removed :: "protection \<Rightarrow> protection" where
  "overlay_removed st =
     (if overlay_present st
      then st\<lparr> overlay_present := False,
               timeouts := timeouts st @ replicate (overlay_observers st) (100, TShowOverlay) \<rparr>
      else st)"

definition showEnhancedProtectionOverlay :: "protection \<Rightarrow> protection" where
  "showEnhancedProtectionOverlay st =
     (if overlay_present st then st
      else st\<lparr> overlay_present := True, overlay_observers := overlay_observers st + 1 \<rparr>)"

definition blockNetworkRequests :: "protection \<Rightarrow> protection" where
  "blockNetworkRequests st =
     (if \<not> isDevToolsOpen st then st
      else st\<lparr> window_fetch := RejectingFetch, xhr_open := ThrowingOpen,
               window_WebSocket := Throwing, window_EventSource := Throwing \<rparr>)"

definition restoreNetworkRequests :: "protection \<Rightarrow> protection" where
  "restoreNetworkRequests st =
     (let st1 = (case originalFetch st of Some f \<Rightarrow> st\<lparr> window_fetch := f \<rparr> | None \<Rightarrow> st)
      in case originalXHR st1 of Some x \<Rightarrow> st1\<lparr> xhr_open := x \<rparr> | None \<Rightarrow> st1)"

definition applyVisualLock :: "protection \<Rightarrow> protection" where
  "applyVisualLock st = st\<lparr> visual_lock := True \<rparr>"

definition clearVisualLock :: "protection \<Rightarrow> protection" where
  "clearVisualLock st = st\<lparr> visual_lock := False \<rparr>"

definition startConsoleFlood :: "protection \<Rightarrow> protection" where
  "startConsoleFlood st =
     (if consoleFloodInterval st then st else st\<lparr> consoleFloodInterval := True \<rparr>)"

definition stopConsoleFlood :: "protection \<Rightarrow> protection" where
  "stopConsoleFlood st =
     (if consoleFloodInterval st then st\<lparr> consoleFloodInterval := False \<rparr> else st)"

subsection \<open>The console\<close>

text \<open>
  \<open>blockBypassMethods\<close> wraps every console method: while \<open>protectionActive\<close> is set the
  wrapper calls \<open>handleDevToolsDetected\<close> and returns, and otherwise it passes the call to
  the console it saved. A call is diverted when that wrapper is installed and protection
  is active; any other call reaches the browser's console, which may throw.

  \<open>handleDevToolsDetected\<close> run from the wrapper returns at its first line when belief is
  open. When belief is closed it sets it open, its own log is diverted in turn and
  returns at once, \<open>activateProtection\<close> returns at its first line because protection is
  active, and the overlay is shown; it cannot throw. \<open>diverted_handle\<close> is that run.
\<close>

definition console_diverted :: "protection \<Rightarrow> bool" where
  "console_diverted st = (console_wrapped st \<and> protectionActive st)"

definition diverted_handle :: "protection \<Rightarrow> protection" where
  "diverted_handle st =
     (if isDevToolsOpen st then st
      else showEnhancedProtectionOverlay (st\<lparr> isDevToolsOpen := True \<rparr>))"

text \<open>What a console call does to the record, thrown or not.\<close>

definition console_effect :: "protection \<Rightarrow> protection" where
  "console_effect st = (if console_diverted st then diverted_handle st else st)"

text \<open>A console call outside any \<open>try\<close>.\<close>

definition console_call :: "browser \<Rightarrow> protection \<Rightarrow> completion \<times> protection" where
  "console_call e st =
     (if console_diverted st then (Returned, diverted_handle st)
      else if console_throws e then (Threw, st)
      else (Returned, st))"

definition activateProtection :: "browser \<Rightarrow> protection \<Rightarrow> completion \<times> protection" where
  "activateProtection e st =
     (if protectionActive st then (Returned, st)
      else
        and_then (console_call e (st\<lparr> protectionActive := True \<rparr>))
          (\<lambda>st1.
             let st2 = st1\<lparr> body_protection_classes := True \<rparr>;
                 st3 = blockNetworkRequests st2;
                 st4 = startConsoleFlood st3
             in (Returned, applyVisualLock st4)))"

definition deactivateProtection :: "browser \<Rightarrow> protection \<Rightarrow> completion \<times> protection" where
  "deactivateProtection e st =
     and_then (console_call e (st\<lparr> protectionActive := False, isDevToolsOpen := False \<rparr>))
       (\<lambda>st1.
          let st2 = st1\<lparr> body_protection_classes := False \<rparr>;
              st3 = restoreNetworkRequests st2;
              st4 = clearVisualLock st3;
              st5 = stopConsoleFlood st4
          in (Returned, overlay_removed st5))"

definition handleDevToolsDetected :: "browser \<Rightarrow> protection \<Rightarrow> completion \<times> protection" where
  "handleDevToolsDetected e st =
     (if isDevToolsOpen st then (Returned, st)
      else
        and_then (console_call e (st\<lparr> isDevToolsOpen := True \<rparr>))
          (\<lambda>st1. and_then (activateProtection e st1)
             (\<lambda>st2. (Returned, showEnhancedProtectionOverlay st2))))"

subsection \<open>Numbers\<close>

text \<open>
  Window and screen sizes are integers, and the script divides them: a JavaScript division
  by zero gives an infinity or \<open>NaN\<close>, which compare as written below. Finite quotients
  and the products with \<open>0.3\<close> and \<open>0.7\<close> are taken exactly.
\<close>

datatype jsnum = Fin rat | PosInf | NegInf | NaN

definition js_div :: "int \<Rightarrow> int \<Rightarrow> jsnum" where
  "js_div a b =
     (if b \<noteq> 0 then Fin (of_int a / of_int b)
      else if a > 0 then PosInf else if a < 0 then NegInf else NaN)"

definition js_lt :: "jsnum \<Rightarrow> rat \<Rightarrow> bool" where
  "js_lt x c = (case x of Fin q \<Rightarrow> q < c | NegInf \<Rightarrow> True | _ \<Rightarrow> False)"

definition js_gt :: "jsnum \<Rightarrow> rat \<Rightarrow> bool" where
  "js_gt x c = (case x of Fin q \<Rightarrow> q > c | PosInf \<Rightarrow> True | _ \<Rightarrow> False)"

subsection \<open>Detection\<close>

definition checkIfReallyClosed :: "protection \<Rightarrow> protection" where
  "checkIfReallyClosed st = st\<lparr> timeouts := timeouts st @ [(1000, TConfirmClosed)] \<rparr>"

text \<open>
  The callback that \<open>checkIfReallyClosed\<close> schedules. Its three checks, each worth one:
  both size gaps under 100; the logged test object was not coerced, or logging threw;
  one \<open>debugger\<close> statement took under 50 ms. The log of the test object sits in a
  \<open>try\<close>; the call of \<open>deactivateProtection\<close> does not.
\<close>

definition size_check :: "browser \<Rightarrow> bool" where
  "size_check e =
     (let heightDiff = outerHeight e - innerHeight e;
          widthDiff = outerWidth e - innerWidth e
      in heightDiff < 100 \<and> widthDiff < 100)"

definition console_check :: "protection \<Rightarrow> browser \<Rightarrow> bool" where
  "console_check st e =
     (if console_diverted st then True
      else if console_throws e then True
      else \<not> console_coerces e)"

definition timing_check :: "browser \<Rightarrow> bool" where
  "timing_check e = (debugger_elapsed e 0 < 50)"

definition closedCount :: "protection \<Rightarrow> browser \<Rightarrow> nat" where
  "closedCount st e =
     (if size_check e then 1 else 0) + (if console_check st e then 1 else 0)
     + (if timing_check e then 1 else 0)"

definition confirm_closed :: "browser \<Rightarrow> protection \<Rightarrow> completion \<times> protection" where
  "confirm_closed e st =
     (let n = closedCount st e;
          st1 = console_effect st
      in if n \<ge> 2 then deactivateProtection e st1 else (Returned, st1))"

text \<open>
  \<open>detectByConsoleImproved\<close> logs three detector objects inside a \<open>try\<close>. A diverted log
  coerces nothing. When the console is reached, a throw lands in the \<open>catch\<close>, which calls
  \<open>handleDevToolsDetected\<close> unless belief is open, and a throw of that call leaves the
  method; a coercion sets \<open>detected\<close>, and the call of \<open>handleDevToolsDetected\<close> that
  follows sits in the \<open>try\<close>, so a throw from it lands in the \<open>catch\<close>, which then finds
  belief open and does nothing.
\<close>

definition detectByConsoleImproved :: "browser \<Rightarrow> protection \<Rightarrow> completion \<times> protection" where
  "detectByConsoleImproved e st =
     (if console_diverted st
      then (Returned, console_effect (console_effect (console_effect st)))
      else if console_throws e
           then (if \<not> isDevToolsOpen st then handleDevToolsDetected e st else (Returned, st))
           else if console_coerces e \<and> \<not> isDevToolsOpen st
                then (Returned, snd (handleDevToolsDetected e st))
                else (Returned, st))"

definition suspiciousSize :: "browser \<Rightarrow> bool" where
  "suspiciousSize e =
     (let heightRatio = js_div (innerHeight e) (screenHeight e);
          widthRatio = js_div (innerWidth e) (screenWidth e);
          heightDiff = outerHeight e - innerHeight e;
          widthDiff = outerWidth e - innerWidth e
      in (js_lt heightRatio (7 / 10) \<and> heightDiff > 200)
         \<or> (js_lt widthRatio (7 / 10) \<and> widthDiff > 250)
         \<or> (heightDiff > 300 \<or> widthDiff > 400))"

definition looks_closed :: "browser \<Rightarrow> bool" where
  "looks_closed e =
     (let heightRatio = js_div (innerHeight e) (screenHeight e);
          widthRatio = js_div (innerWidth e) (screenWidth e);
          heightDiff = outerHeight e - innerHeight e;
          widthDiff = outerWidth e - innerWidth e
      in js_gt heightRatio (85 / 100) \<and> js_gt widthRatio (85 / 100)
         \<and> heightDiff < 150 \<and> widthDiff < 150)"

definition detectByWindowSize :: "browser \<Rightarrow> protection \<Rightarrow> protection" where
  "detectByWindowSize e st =
     (if suspiciousSize e \<and> \<not> isDevToolsOpen st
      then st\<lparr> timeouts := timeouts st @ [(200, TDetectByConsoleImproved)] \<rparr>
      else if isDevToolsOpen st \<and> looks_closed e then checkIfReallyClosed st
      else st)"

definition detectByElementManipulation :: "protection \<Rightarrow> protection" where
  "detectByElementManipulation st = st\<lparr> timeouts := timeouts st @ [(100, TElementCheck)] \<rparr>"

text \<open>
  The callback of \<open>detectByElementManipulation\<close>. Reading the computed style may throw,
  which lands in the \<open>catch\<close> and its call of \<open>handleDevToolsDetected\<close>; a position other
  than \<open>absolute\<close> calls it inside the \<open>try\<close>, and a throw from there lands in the \<open>catch\<close>,
  whose call then returns at its first line.
\<close>

definition element_check :: "browser \<Rightarrow> protection \<Rightarrow> completion \<times> protection" where
  "element_check e st =
     (case computed_position e of
        None \<Rightarrow> handleDevToolsDetected e st
      | Some p \<Rightarrow>
          if p \<noteq> ''absolute'' then (Returned, snd (handleDevToolsDetected e st))
          else (Returned, st))"

definition detectByMultipleMethods :: "browser \<Rightarrow> protection \<Rightarrow> completion \<times> protection" where
  "detectByMultipleMethods e st =
     and_then (detectByConsoleImproved e st)
       (\<lambda>st1. (Returned, detectByElementManipulation (detectByWindowSize e st1)))"

text \<open>The six methods of \<open>detectDevToolsMultipleMethods\<close>, in source order.\<close>

definition devToolsGlobals :: "string list" where
  "devToolsGlobals = [''$'', ''$$'', ''$x'', ''inspect'', ''monitor'', ''debug'', ''console'', ''$0'']"

definition method_console :: "protection \<Rightarrow> browser \<Rightarrow> bool" where
  "method_console st e =
     (if console_diverted st then False else console_throws e \<or> console_reads_id e)"

definition method_size :: "browser \<Rightarrow> bool" where
  "method_size e =
     (let heightThreshold = min (of_int (screenHeight e) * (3 / 10)) (200 :: rat);
          widthThreshold = min (of_int (screenWidth e) * (3 / 10)) (200 :: rat);
          heightDiff = outerHeight e - innerHeight e;
          widthDiff = outerWidth e - innerWidth e
      in of_int heightDiff > heightThreshold \<or> of_int widthDiff > widthThreshold)"

definition method_timing :: "browser \<Rightarrow> bool" where
  "method_timing e = list_ex (\<lambda>i. debugger_elapsed e i > 50) [0, 1, 2]"

definition method_globals :: "browser \<Rightarrow> bool" where
  "method_globals e = (length (filter (native_function_global e) devToolsGlobals) > 3)"

definition method_media :: "browser \<Rightarrow> bool" where
  "method_media e =
     (if matchMedia_throws e then False
      else (of_int (innerWidth e) :: rat) < of_int (outerWidth e) * (7 / 10)
           \<or> (of_int (innerHeight e) :: rat) < of_int (outerHeight e) * (7 / 10))"

definition method_performance :: "browser \<Rightarrow> bool" where
  "method_performance e =
     (case navigation_entries e of
        None \<Rightarrow> False
      | Some [] \<Rightarrow> False
      | Some ((loadEventEnd, fetchStart) # _) \<Rightarrow> loadEventEnd - fetchStart > 2000)"

definition verdicts :: "protection \<Rightarrow> browser \<Rightarrow> bool list" where
  "verdicts st e =
     [method_console st e, method_size e, method_timing e, method_globals e,
      method_media e, method_performance e]"

definition detectionCount :: "protection \<Rightarrow> browser \<Rightarrow> nat" where
  "detectionCount st e = length (filter (\<lambda>b. b) (verdicts st e))"

text \<open>
  The log of the first method sits in a \<open>try\<close>. The message logged once the count has
  reached two does not, and it comes before the call of \<open>handleDevToolsDetected\<close>.
\<close>

definition detectDevToolsMultipleMethods :: "browser \<Rightarrow> protection \<Rightarrow> completion \<times> protection" where
  "detectDevToolsMultipleMethods e st =
     (let n = detectionCount st e;
          st1 = console_effect st
      in if n \<ge> 2
         then and_then (console_call e st1) (\<lambda>st2. handleDevToolsDetected e st2)
         else (Returned, st1))"

subsection \<open>Input handlers\<close>

text \<open>
  The class body defines \<open>disableAllDevToolsAccess\<close> twice; the later definition is the
  one the prototype keeps, and it is the one modelled.
\<close>

record key_event =
  key :: string
  ctrlKey :: bool
  shiftKey :: bool
  metaKey :: bool
  altKey :: bool

record mouse_event =
  button :: int
  mouse_ctrlKey :: bool
  mouse_metaKey :: bool
  target_interactive :: bool

text \<open>\<open>toLowerCase\<close> on the ASCII letters, which is what the key names compared here need.\<close>

definition lower_char :: "char \<Rightarrow> char" where
  "lower_char c =
     (let n = (of_char c :: nat) in if 65 \<le> n \<and> n \<le> 90 then char_of (n + 32) else c)"

definition toLowerCase :: "string \<Rightarrow> string" where
  "toLowerCase s = map lower_char s"

definition blocked :: "key_event \<Rightarrow> bool" where
  "blocked ev =
     (let k = toLowerCase (key ev)
      in k = ''f12''
         \<or> (ctrlKey ev \<and> shiftKey ev \<and> k \<in> set [''i'', ''j'', ''c'', ''k''])
         \<or> (ctrlKey ev \<and> k = ''u'')
         \<or> (metaKey ev \<and> altKey ev \<and> k \<in> set [''i'', ''c'', ''j'']))"

definition blockKeyEvent :: "key_event \<Rightarrow> browser \<Rightarrow> protection \<Rightarrow> completion \<times> protection" where
  "blockKeyEvent ev e st = (if blocked ev then handleDevToolsDetected e st else (Returned, st))"

definition blockContextMenu :: "browser \<Rightarrow> protection \<Rightarrow> completion \<times> protection" where
  "blockContextMenu e st = handleDevToolsDetected e st"

definition mousedown :: "mouse_event \<Rightarrow> browser \<Rightarrow> protection \<Rightarrow> completion \<times> protection" where
  "mousedown ev e st =
     (if button ev = 2 \<or> button ev = 1 then handleDevToolsDetected e st
      else if (mouse_ctrlKey ev \<or> mouse_metaKey ev) \<and> button ev = 0
              \<and> \<not> target_interactive ev
           then handleDevToolsDetected e st
           else (Returned, st))"

definition disableAllDevToolsAccess :: "protection \<Rightarrow> protection" where
  "disableAllDevToolsAccess st =
     st\<lparr> listeners := listeners st @ [''keydown'', ''contextmenu'', ''mousedown''] \<rparr>"

definition startAggressiveDetection :: "protection \<Rightarrow> protection" where
  "startAggressiveDetection st =
     st\<lparr> intervals := intervals st @ [200],
         listeners := listeners st @ [''resize'', ''blur'', ''focus'', ''visibilitychange''] \<rparr>"

subsection \<open>Setup\<close>

definition injectProtectionCSS :: "protection \<Rightarrow> protection" where
  "injectProtectionCSS st = st\<lparr> css_injected := True \<rparr>"

definition setupDOMProtection :: "protection \<Rightarrow> protection" where
  "setupDOMProtection st = st\<lparr> dom_observer := True \<rparr>"

definition blockBypassMethods :: "protection \<Rightarrow> protection" where
  "blockBypassMethods st =
     st\<lparr> console_wrapped := True, window_eval := Throwing, window_Function := Throwing,
         intervals := intervals st @ [1000] \<rparr>"

definition setupAdvancedProtection :: "protection \<Rightarrow> protection" where
  "setupAdvancedProtection st = blockBypassMethods (setupDOMProtection (injectProtectionCSS st))"

definition suspiciousProps :: "string list" where
  "suspiciousProps = [''$'', ''$$'', ''$x'', ''inspect'', ''monitor'', ''debug'']"

text \<open>
  The 1000 ms poll walks the property names; a throw of \<open>handleDevToolsDetected\<close> ends
  the walk.
\<close>

fun poll_props :: "browser \<Rightarrow> string list \<Rightarrow> protection \<Rightarrow> completion \<times> protection" where
  "poll_props e [] st = (Returned, st)"
| "poll_props e (prop # props) st =
     (if truthy_global e prop \<and> \<not> isDevToolsOpen st
      then and_then (handleDevToolsDetected e st) (poll_props e props)
      else poll_props e props st)"

definition globals_poll :: "browser \<Rightarrow> protection \<Rightarrow> completion \<times> protection" where
  "globals_poll e st = poll_props e suspiciousProps st"

text \<open>
  The observer of \<open>setupDOMProtection\<close> reads \<open>protectionActive\<close> once and then calls
  \<open>handleDevToolsDetected\<close> for each attribute mutation of the batch.
\<close>

fun handle_each :: "nat \<Rightarrow> browser \<Rightarrow> protection \<Rightarrow> completion \<times> protection" where
  "handle_each 0 e st = (Returned, st)"
| "handle_each (Suc n) e st = and_then (handleDevToolsDetected e st) (handle_each n e)"

definition attribute_mutations :: "nat \<Rightarrow> browser \<Rightarrow> protection \<Rightarrow> completion \<times> protection" where
  "attribute_mutations n e st =
     (if protectionActive st then handle_each n e st else (Returned, st))"

text \<open>The flood callback; its console calls sit in a \<open>try\<close> whose \<open>catch\<close> ignores a throw.\<close>

definition flood_tick :: "protection \<Rightarrow> protection" where
  "flood_tick st = (if \<not> protectionActive st then stopConsoleFlood st else console_effect st)"

definition initImmediateDetection :: "page \<Rightarrow> browser \<Rightarrow> protection \<Rightarrow> completion \<times> protection" where
  "initImmediateDetection pg e st =
     and_then (detectDevToolsMultipleMethods e st)
       (\<lambda>st1.
          let st2 = disableAllDevToolsAccess st1;
              st3 = startAggressiveDetection st2
          in if readyState_loading pg
             then (Returned, st3\<lparr> setup_on_ready := True,
                                  listeners := listeners st3 @ [''DOMContentLoaded''] \<rparr>)
             else (Returned, setupAdvancedProtection st3))"

definition constructor :: "page \<Rightarrow> browser \<Rightarrow> protection \<Rightarrow> completion \<times> protection" where
  "constructor pg e st =
     (let st1 = st\<lparr> isDevToolsOpen := False, protectionActive := False, warningShown := False,
                    networkRequests := Map.empty, originalFetch := None, originalXHR := None \<rparr>;
          st2 = interceptNetworkRequests st1
      in initImmediateDetection pg e st2)"

text \<open>
  The loader at the end of the file logs a message, constructs the one instance, logs a
  second message and schedules a last \<open>detectDevToolsMultipleMethods\<close> after 500 ms; a
  throw at any of these ends the script there. Its other statements (replacing
  \<open>window.open\<close>, \<open>document.createElement\<close> and the service-worker registration, and
  removing injected scripts) do not touch the record. Nothing in the class or the loader
  reads the page's URL. The script is taken to run where \<open>document.body\<close> exists.
\<close>

definition loader :: "page \<Rightarrow> browser \<Rightarrow> protection \<Rightarrow> completion \<times> protection" where
  "loader pg e st =
     and_then (console_call e st)
       (\<lambda>st1. and_then (constructor pg e st1)
          (\<lambda>st2. and_then (console_call e st2)
             (\<lambda>st3. (Returned,
                st3\<lparr> timeouts := timeouts st3 @ [(500, TDetectDevToolsMultipleMethods)] \<rparr>))))"

definition protection_load :: "page \<Rightarrow> browser \<Rightarrow> protection" where
  "protection_load pg e = snd (loader pg e fresh)"

subsection \<open>Requests and disabled globals\<close>

text \<open>
  A JavaScript argument is a string or \<open>undefined\<close>. \<open>fetch\<close> is called with a list of
  arguments and \<open>open\<close> with another; \<open>Transport\<close> and \<open>OpenTransport\<close> carry the list
  the native function receives.
\<close>

type_synonym jsarg = "string option"

datatype fetch_outcome = Transport "jsarg list" | Resolved403 | RejectedBlocked | FetchThrew

datatype xhr_outcome = OpenTransport "jsarg list" | OpenIgnored | OpenThrew

datatype call_outcome = Ran | ThrewError string

text \<open>The argument at a position, \<open>undefined\<close> beyond the end of the list.\<close>

definition arg_at :: "jsarg list \<Rightarrow> nat \<Rightarrow> jsarg" where
  "arg_at args i = (if i < length args then args ! i else None)"

text \<open>
  Calling one of the three fetch functions. The blocking ones log before they answer, so
  a throwing console makes them throw. The wrapper delegates to \<open>originalFetch\<close> with the
  caller's list; were that the wrapper itself or \<open>null\<close>, the call would throw.
\<close>

definition rejecting_fetch :: "browser \<Rightarrow> protection \<Rightarrow> fetch_outcome \<times> protection" where
  "rejecting_fetch e st =
     (case console_call e st of
        (Threw, st1) \<Rightarrow> (FetchThrew, st1)
      | (Returned, st1) \<Rightarrow> (RejectedBlocked, st1))"

definition fetch_via ::
  "fetch_fn \<Rightarrow> jsarg list \<Rightarrow> browser \<Rightarrow> protection \<Rightarrow> fetch_outcome \<times> protection" where
  "fetch_via f args e st =
     (case f of
        NativeFetch \<Rightarrow> (Transport args, st)
      | RejectingFetch \<Rightarrow> rejecting_fetch e st
      | InterceptingFetch \<Rightarrow>
          if isDevToolsOpen st
          then (case console_call e st of
                  (Threw, st1) \<Rightarrow> (FetchThrew, st1)
                | (Returned, st1) \<Rightarrow> (Resolved403, st1))
          else
            let st1 = st\<lparr> networkRequests := (networkRequests st)(date_now e \<mapsto> arg_at args 0) \<rparr>
            in (case originalFetch st1 of
                  Some NativeFetch \<Rightarrow> (Transport args, st1)
                | Some RejectingFetch \<Rightarrow> rejecting_fetch e st1
                | Some InterceptingFetch \<Rightarrow> (FetchThrew, st1)
                | None \<Rightarrow> (FetchThrew, st1)))"

definition call_fetch ::
  "jsarg list \<Rightarrow> browser \<Rightarrow> protection \<Rightarrow> fetch_outcome \<times> protection" where
  "call_fetch args e st = fetch_via (window_fetch st) args e st"

text \<open>
  The wrapper of \<open>open\<close> names its first two parameters and passes the original
  \<open>[method, url, ...args]\<close>: a call with fewer than two arguments reaches the original
  padded with \<open>undefined\<close>.
\<close>

definition throwing_open :: "browser \<Rightarrow> protection \<Rightarrow> xhr_outcome \<times> protection" where
  "throwing_open e st = (OpenThrew, snd (console_call e st))"

definition open_via ::
  "xhr_fn \<Rightarrow> jsarg list \<Rightarrow> browser \<Rightarrow> protection \<Rightarrow> xhr_outcome \<times> protection" where
  "open_via f args e st =
     (case f of
        NativeOpen \<Rightarrow> (OpenTransport args, st)
      | ThrowingOpen \<Rightarrow> throwing_open e st
      | InterceptingOpen \<Rightarrow>
          if isDevToolsOpen st
          then (case console_call e st of
                  (Threw, st1) \<Rightarrow> (OpenThrew, st1)
                | (Returned, st1) \<Rightarrow> (OpenIgnored, st1))
          else
            let method = arg_at args 0;
                url = arg_at args 1;
                st1 = st\<lparr> networkRequests := (networkRequests st)(date_now e \<mapsto> url) \<rparr>
            in (case originalXHR st1 of
                  Some NativeOpen \<Rightarrow> (OpenTransport ([method, url] @ drop 2 args), st1)
                | Some ThrowingOpen \<Rightarrow> throwing_open e st1
                | Some InterceptingOpen \<Rightarrow> (OpenThrew, st1)
                | None \<Rightarrow> (OpenThrew, st1)))"

definition call_xhr_open ::
  "jsarg list \<Rightarrow> browser \<Rightarrow> protection \<Rightarrow> xhr_outcome \<times> protection" where
  "call_xhr_open args e st = open_via (xhr_open st) args e st"

definition call_eval :: "jsarg list \<Rightarrow> protection \<Rightarrow> call_outcome" where
  "call_eval args st =
     (case window_eval st of Native \<Rightarrow> Ran | Throwing \<Rightarrow> ThrewError ''eval() is disabled'')"

definition call_Function :: "jsarg list \<Rightarrow> protection \<Rightarrow> call_outcome" where
  "call_Function args st =
     (case window_Function st of Native \<Rightarrow> Ran
      | Throwing \<Rightarrow> ThrewError ''Function constructor is disabled'')"

subsection \<open>Everything that can happen after loading\<close>

datatype event =
    IntervalTick browser
  | GlobalsPoll browser
  | FloodTick
  | Resize
  | Blur
  | Focus
  | VisibilityChange bool
  | DOMContentLoaded
  | KeyDown key_event browser
  | ContextMenu browser
  | MouseDown mouse_event browser
  | Timeout task browser
  | OverlayRemoved
  | AttributeMutations nat browser
  | FetchCall "jsarg list" browser
  | XhrOpenCall "jsarg list" browser

fun remove_task :: "task \<Rightarrow> (nat \<times> task) list \<Rightarrow> (nat \<times> task) list" where
  "remove_task t [] = []"
| "remove_task t ((d, u) # ts) = (if u = t then ts else (d, u) # remove_task t ts)"

definition pending :: "task \<Rightarrow> protection \<Rightarrow> bool" where
  "pending t st = (t \<in> snd ` set (timeouts st))"

definition run_task :: "task \<Rightarrow> browser \<Rightarrow> protection \<Rightarrow> completion \<times> protection" where
  "run_task t e st =
     (case t of
        TDetectByWindowSize \<Rightarrow> (Returned, detectByWindowSize e st)
      | TDetectDevToolsMultipleMethods \<Rightarrow> detectDevToolsMultipleMethods e st
      | TDetectByConsoleImproved \<Rightarrow> detectByConsoleImproved e st
      | TElementCheck \<Rightarrow> element_check e st
      | TConfirmClosed \<Rightarrow> confirm_closed e st
      | TShowOverlay \<Rightarrow> (Returned, showEnhancedProtectionOverlay st))"

definition installed :: "string \<Rightarrow> protection \<Rightarrow> bool" where
  "installed name st = (name \<in> set (listeners st))"

text \<open>
  One event of the page's single thread. A listener, timer or observer callback runs
  only if it was installed; a timeout runs only if it is pending, and is then consumed.
  An exception that leaves a callback is reported by the browser and the record stays
  as the callback left it.
\<close>

definition step :: "event \<Rightarrow> protection \<Rightarrow> protection" where
  "step ev st =
     (case ev of
        IntervalTick e \<Rightarrow>
          if 200 \<in> set (intervals st) then snd (detectByMultipleMethods e st) else st
      | GlobalsPoll e \<Rightarrow> if 1000 \<in> set (intervals st) then snd (globals_poll e st) else st
      | FloodTick \<Rightarrow> if consoleFloodInterval st then flood_tick st else st
      | Resize \<Rightarrow>
          if installed ''resize'' st
          then st\<lparr> timeouts := timeouts st @ [(100, TDetectByWindowSize)] \<rparr> else st
      | Blur \<Rightarrow>
          if installed ''blur'' st
          then st\<lparr> timeouts := timeouts st @ [(300, TDetectDevToolsMultipleMethods)] \<rparr> else st
      | Focus \<Rightarrow>
          if installed ''focus'' st
          then st\<lparr> timeouts := timeouts st @ [(300, TDetectDevToolsMultipleMethods)] \<rparr> else st
      | VisibilityChange hidden \<Rightarrow>
          if installed ''visibilitychange'' st \<and> \<not> hidden
          then st\<lparr> timeouts := timeouts st @ [(500, TDetectDevToolsMultipleMethods)] \<rparr> else st
      | DOMContentLoaded \<Rightarrow>
          if setup_on_ready st then setupAdvancedProtection (st\<lparr> setup_on_ready := False \<rparr>)
          else st
      | KeyDown k e \<Rightarrow> if installed ''keydown'' st then snd (blockKeyEvent k e st) else st
      | ContextMenu e \<Rightarrow> if installed ''contextmenu'' st then snd (blockContextMenu e st) else st
      | MouseDown m e \<Rightarrow> if installed ''mousedown'' st then snd (mousedown m e st) else st
      | Timeout t e \<Rightarrow>
          if pending t st
          then snd (run_task t e (st\<lparr> timeouts := remove_task t (timeouts st) \<rparr>))
          else st
      | OverlayRemoved \<Rightarrow> overlay_removed st
      | AttributeMutations n e \<Rightarrow>
          if dom_observer st then snd (attribute_mutations n e st) else st
      | FetchCall args e \<Rightarrow> snd (call_fetch args e st)
      | XhrOpenCall args e \<Rightarrow> snd (call_xhr_open args e st))"

fun run :: "event list \<Rightarrow> protection \<Rightarrow> protection" where
  "run [] st = st"
| "run (ev # evs) st = run evs (step ev st)"

subsection \<open>Sessions and the states they reach\<close>

text \<open>A session is the loaded script followed by any sequence of events.\<close>

definition session :: "page \<Rightarrow> browser \<Rightarrow> event list \<Rightarrow> protection" where
  "session pg e evs = run evs (protection_load pg e)"

text \<open>
  What every state of a session satisfies: protection is active only while belief is
  open, and a pending confirmation pass was scheduled with a delay of 1000 ms.
\<close>

definition consistent :: "protection \<Rightarrow> bool" where
  "consistent st =
     ((isDevToolsOpen st \<or> \<not> protectionActive st)
      \<and> list_all (\<lambda>(d, t). t \<noteq> TConfirmClosed \<or> d = 1000) (timeouts st))"

text \<open>The two globals that \<open>blockBypassMethods\<close> replaces.\<close>

definition globals_disabled :: "protection \<Rightarrow> bool" where
  "globals_disabled st = (window_eval st = Throwing \<and> window_Function st = Throwing)"


subsection \<open>Concrete pages, browsers and events\<close>

definition ready_page :: page where
  "ready_page = \<lparr> has_window = True, query = [], readyState_loading = False,
     script_same_origin = True \<rparr>"


text \<open>A docked panel 350 px high on a tall screen: the viewport keeps 73% of the screen.\<close>

definition tall_gap_env :: browser where
  "tall_gap_env = quiet_env\<lparr> screenHeight := 1440, outerHeight := 1400, innerHeight := 1050,
     screenWidth := 2560, outerWidth := 2560, innerWidth := 2560 \<rparr>"

text \<open>A browser in which the console coerces logged objects and nothing else is unusual.\<close>

definition console_env :: browser where
  "console_env = quiet_env\<lparr> console_coerces := True, console_reads_id := True \<rparr>"

text \<open>The same, with a debugger pause of 120 ms on the first trial as well.\<close>

definition paused_env :: browser where
  "paused_env = console_env\<lparr> debugger_elapsed := (\<lambda>i. if i = 0 then 120 else 0) \<rparr>"

text \<open>A browser whose console methods throw and in which nothing else is unusual.\<close>

definition throwing_env :: browser where
  "throwing_env = quiet_env\<lparr> console_throws := True \<rparr>"



text \<open>A detection by the context menu, a tick that starts the confirmation pass, and the pass.\<close>

definition closing_run :: "event list" where
  "closing_run = [ContextMenu quiet_env, IntervalTick quiet_env, Timeout TConfirmClosed quiet_env]"

text \<open>The same, but the console throws while the confirmation pass runs.\<close>

definition interrupted_closing_run :: "event list" where
  "interrupted_closing_run =
     [ContextMenu quiet_env, IntervalTick quiet_env, Timeout TConfirmClosed throwing_env]"

section \<open>Properties of the aggressive variant\<close>

subsection \<open>Completion\<close>

lemma and_then_Returned: "and_then (Returned, st) f = f st"
  by (simp add: and_then_def)

lemma and_then_Threw: "and_then (Threw, st) f = (Threw, st)"
  by (simp add: and_then_def)

lemma and_then_keeps:
  assumes "P (snd r)" "\<And>s. P s \<Longrightarrow> P (snd (f s))"
  shows "P (snd (and_then r f))"
proof (cases r)
  case (Pair c s)
  with assms show ?thesis
    by (cases c) (simp_all add: and_then_def)
qed

lemmas reaction_defs = showEnhancedProtectionOverlay_def blockNetworkRequests_def
  startConsoleFlood_def applyVisualLock_def restoreNetworkRequests_def
  clearVisualLock_def stopConsoleFlood_def overlay_removed_def Let_def

subsection \<open>Console calls and the detection handler\<close>

lemma console_call_effect: "snd (console_call e st) = console_effect st"
  by (simp add: console_call_def console_effect_def)

lemma diverted_handle_open: "isDevToolsOpen (diverted_handle st)"
  by (simp add: diverted_handle_def showEnhancedProtectionOverlay_def)

lemma diverted_handle_when_open: "isDevToolsOpen st \<Longrightarrow> diverted_handle st = st"
  by (simp add: diverted_handle_def)

lemma console_effect_when_open: "isDevToolsOpen st \<Longrightarrow> console_effect st = st"
  by (simp add: console_effect_def diverted_handle_when_open)

lemma console_effect_inactive: "\<not> protectionActive st \<Longrightarrow> console_effect st = st"
  by (simp add: console_effect_def console_diverted_def)

lemma console_call_inactive:
  "\<not> protectionActive st \<Longrightarrow>
   console_call e st = (if console_throws e then Threw else Returned, st)"
  by (simp add: console_call_def console_diverted_def)

lemma console_call_when_open:
  "isDevToolsOpen st \<Longrightarrow> snd (console_call e st) = st"
  by (simp add: console_call_effect console_effect_when_open)

lemma handle_when_open: "isDevToolsOpen st \<Longrightarrow> handleDevToolsDetected e st = (Returned, st)"
  by (simp add: handleDevToolsDetected_def)

lemma activate_open: "isDevToolsOpen st \<Longrightarrow> isDevToolsOpen (snd (activateProtection e st))"
  by (simp add: activateProtection_def and_then_def console_call_def diverted_handle_when_open
      reaction_defs)

lemma open_and_then:
  "isDevToolsOpen (snd r) \<Longrightarrow> (\<And>s. isDevToolsOpen s \<Longrightarrow> isDevToolsOpen (snd (f s)))
   \<Longrightarrow> isDevToolsOpen (snd (and_then r f))"
  by (rule and_then_keeps)

lemma handle_open: "isDevToolsOpen (snd (handleDevToolsDetected e st))"
proof (cases "isDevToolsOpen st")
  case True
  then show ?thesis by (simp add: handle_when_open)
next
  case False
  let ?s = "st\<lparr> isDevToolsOpen := True \<rparr>"
  have a: "isDevToolsOpen (snd (console_call e ?s))"
    by (simp add: console_call_when_open)
  have b: "\<And>s. isDevToolsOpen s \<Longrightarrow>
      isDevToolsOpen (snd (and_then (activateProtection e s)
             (\<lambda>st2. (Returned, showEnhancedProtectionOverlay st2))))"
    by (rule open_and_then) (simp_all add: activate_open showEnhancedProtectionOverlay_def)
  have "isDevToolsOpen (snd (and_then (console_call e ?s)
          (\<lambda>st1. and_then (activateProtection e st1)
             (\<lambda>st2. (Returned, showEnhancedProtectionOverlay st2)))))"
    using a b by (rule open_and_then)
  with False show ?thesis by (simp add: handleDevToolsDetected_def)
qed

lemma handle_idem:
  "handleDevToolsDetected e' (snd (handleDevToolsDetected e p))
     = (Returned, snd (handleDevToolsDetected e p))"
  by (simp add: handle_when_open handle_open)

lemma handle_diverted:
  "console_diverted st \<Longrightarrow> handleDevToolsDetected e st = (Returned, diverted_handle st)"
  by (simp add: handleDevToolsDetected_def console_call_def console_diverted_def
      diverted_handle_def activateProtection_def and_then_def)

lemma deactivate_closed: "\<not> isDevToolsOpen (snd (deactivateProtection e st))"
  by (simp add: deactivateProtection_def console_call_inactive and_then_def reaction_defs
      split: option.splits)

subsection \<open>The invariant of sessions\<close>

lemma consistent_and_then:
  "consistent (snd r) \<Longrightarrow> (\<And>s. consistent s \<Longrightarrow> consistent (snd (f s)))
   \<Longrightarrow> consistent (snd (and_then r f))"
  by (rule and_then_keeps)

lemma consistent_diverted: "consistent st \<Longrightarrow> consistent (diverted_handle st)"
  by (simp add: consistent_def diverted_handle_def showEnhancedProtectionOverlay_def)

lemma consistent_effect: "consistent st \<Longrightarrow> consistent (console_effect st)"
  by (simp add: console_effect_def consistent_diverted)

lemma consistent_console_call: "consistent st \<Longrightarrow> consistent (snd (console_call e st))"
  by (simp add: console_call_effect consistent_effect)

lemma consistent_activate:
  "consistent st \<Longrightarrow> isDevToolsOpen st \<Longrightarrow> consistent (snd (activateProtection e st))"
  by (simp add: activateProtection_def and_then_def console_call_def diverted_handle_when_open
      consistent_def reaction_defs)

lemma consistent_show: "consistent st \<Longrightarrow> consistent (showEnhancedProtectionOverlay st)"
  by (simp add: consistent_def showEnhancedProtectionOverlay_def)

lemma consistent_handle: "consistent st \<Longrightarrow> consistent (snd (handleDevToolsDetected e st))"
proof (cases "isDevToolsOpen st")
  case True
  assume "consistent st"
  with True show ?thesis by (simp add: handle_when_open)
next
  case False
  assume c: "consistent st"
  let ?s = "st\<lparr> isDevToolsOpen := True \<rparr>"
  have o: "isDevToolsOpen ?s" by simp
  from c have cs: "consistent ?s" by (simp add: consistent_def)
  have s1: "snd (console_call e ?s) = ?s"
    using o by (rule console_call_when_open)
  have ca: "consistent (snd (activateProtection e ?s))"
    by (rule consistent_activate [OF cs o])
  have "consistent (snd (and_then (activateProtection e ?s)
             (\<lambda>st2. (Returned, showEnhancedProtectionOverlay st2))))"
    by (rule consistent_and_then [OF ca]) (simp add: consistent_show)
  then have "consistent (snd (and_then (console_call e ?s)
          (\<lambda>st1. and_then (activateProtection e st1)
             (\<lambda>st2. (Returned, showEnhancedProtectionOverlay st2)))))"
    using s1 cs by (cases "console_call e ?s"; case_tac a) (simp_all add: and_then_def)
  with False show ?thesis by (simp add: handleDevToolsDetected_def)
qed

lemma consistent_deactivate: "consistent st \<Longrightarrow> consistent (snd (deactivateProtection e st))"
  by (auto simp add: deactivateProtection_def console_call_inactive and_then_def consistent_def
      reaction_defs list_all_iff split: option.splits)

lemma consistent_sched:
  "consistent st \<Longrightarrow> t \<noteq> TConfirmClosed \<or> d = 1000 \<Longrightarrow>
   consistent (st\<lparr> timeouts := timeouts st @ [(d, t)] \<rparr>)"
  by (simp add: consistent_def)

lemma list_all_remove_task: "list_all P ts \<Longrightarrow> list_all P (remove_task t ts)"
  by (induction ts) auto

lemma consistent_remove:
  "consistent st \<Longrightarrow> consistent (st\<lparr> timeouts := remove_task t (timeouts st) \<rparr>)"
  by (simp add: consistent_def list_all_remove_task)

lemma consistent_overlay_removed: "consistent st \<Longrightarrow> consistent (overlay_removed st)"
  by (auto simp add: consistent_def overlay_removed_def list_all_iff)

lemma consistent_confirm: "consistent st \<Longrightarrow> consistent (snd (confirm_closed e st))"
  by (simp add: confirm_closed_def Let_def consistent_deactivate consistent_effect)

lemma consistent_console_improved:
  "consistent st \<Longrightarrow> consistent (snd (detectByConsoleImproved e st))"
  by (simp add: detectByConsoleImproved_def consistent_handle consistent_effect)

lemma consistent_window_size: "consistent st \<Longrightarrow> consistent (detectByWindowSize e st)"
  by (simp add: detectByWindowSize_def checkIfReallyClosed_def consistent_sched)

lemma consistent_element: "consistent st \<Longrightarrow> consistent (snd (element_check e st))"
  by (simp add: element_check_def consistent_handle split: option.splits)

lemma consistent_multiple: "consistent st \<Longrightarrow> consistent (snd (detectByMultipleMethods e st))"
  unfolding detectByMultipleMethods_def
  by (rule consistent_and_then)
     (simp_all add: consistent_console_improved detectByElementManipulation_def
       consistent_sched consistent_window_size)

lemma consistent_detect:
  "consistent st \<Longrightarrow> consistent (snd (detectDevToolsMultipleMethods e st))"
  unfolding detectDevToolsMultipleMethods_def Let_def
  by (auto intro!: consistent_and_then simp add: consistent_effect consistent_console_call
      consistent_handle)

lemma consistent_poll_props: "consistent st \<Longrightarrow> consistent (snd (poll_props e ps st))"
proof (induction ps arbitrary: st)
  case Nil
  then show ?case by simp
next
  case (Cons p ps)
  show ?case
  proof (cases "truthy_global e p \<and> \<not> isDevToolsOpen st")
    case True
    have "consistent (snd (and_then (handleDevToolsDetected e st) (poll_props e ps)))"
      by (rule consistent_and_then) (simp_all add: consistent_handle Cons)
    with True show ?thesis by simp
  next
    case False
    with Cons show ?thesis by auto
  qed
qed

lemma consistent_handle_each: "consistent st \<Longrightarrow> consistent (snd (handle_each n e st))"
proof (induction n arbitrary: st)
  case 0
  then show ?case by simp
next
  case (Suc n)
  have "consistent (snd (and_then (handleDevToolsDetected e st) (handle_each n e)))"
    by (rule consistent_and_then) (simp_all add: consistent_handle Suc)
  then show ?case by simp
qed

lemma consistent_flood: "consistent st \<Longrightarrow> consistent (flood_tick st)"
  by (simp add: flood_tick_def consistent_effect) (simp add: consistent_def stopConsoleFlood_def)

lemma consistent_setup: "consistent st \<Longrightarrow> consistent (setupAdvancedProtection st)"
  by (simp add: consistent_def setupAdvancedProtection_def blockBypassMethods_def
      setupDOMProtection_def injectProtectionCSS_def)

lemma consistent_frame:
  "consistent (st\<lparr> listeners := l \<rparr>) = consistent st"
  "consistent (st\<lparr> intervals := i \<rparr>) = consistent st"
  "consistent (st\<lparr> setup_on_ready := b \<rparr>) = consistent st"
  "consistent (st\<lparr> networkRequests := n \<rparr>) = consistent st"
  by (simp_all add: consistent_def)

lemma consistent_fetch: "consistent st \<Longrightarrow> consistent (snd (call_fetch args e st))"
  by (auto simp add: call_fetch_def fetch_via_def rejecting_fetch_def Let_def console_call_def
      consistent_diverted consistent_frame
      split: fetch_fn.splits option.splits prod.splits completion.splits if_splits)

lemma consistent_xhr: "consistent st \<Longrightarrow> consistent (snd (call_xhr_open args e st))"
  by (auto simp add: call_xhr_open_def open_via_def throwing_open_def Let_def console_call_def
      consistent_diverted consistent_frame
      split: xhr_fn.splits option.splits prod.splits completion.splits if_splits)

lemma consistent_run_task: "consistent st \<Longrightarrow> consistent (snd (run_task t e st))"
  by (cases t) (simp_all add: run_task_def consistent_window_size consistent_detect
      consistent_console_improved consistent_element consistent_confirm consistent_show)

lemma consistent_step: "consistent st \<Longrightarrow> consistent (step ev st)"
  by (cases ev) (simp_all add: step_def consistent_multiple globals_poll_def
      consistent_poll_props consistent_flood consistent_sched consistent_setup consistent_frame
      blockKeyEvent_def blockContextMenu_def mousedown_def consistent_handle
      consistent_run_task consistent_remove consistent_overlay_removed attribute_mutations_def
      consistent_handle_each consistent_fetch consistent_xhr)

lemma consistent_run: "consistent st \<Longrightarrow> consistent (run evs st)"
  by (induction evs arbitrary: st) (simp_all add: consistent_step)

lemma consistent_init:
  "consistent st \<Longrightarrow> consistent (snd (initImmediateDetection pg e st))"
  unfolding initImmediateDetection_def
  by (rule consistent_and_then)
     (simp_all add: consistent_detect Let_def disableAllDevToolsAccess_def
       startAggressiveDetection_def consistent_frame consistent_setup)

lemma consistent_fresh: "consistent fresh"
  by (simp add: consistent_def fresh_def)

lemma consistent_constructor: "consistent st \<Longrightarrow> consistent (snd (constructor pg e st))"
proof -
  assume c: "consistent st"
  have "consistent (interceptNetworkRequests (st\<lparr> isDevToolsOpen := False,
          protectionActive := False, warningShown := False, networkRequests := Map.empty,
          originalFetch := None, originalXHR := None \<rparr>))"
    using c by (simp add: consistent_def interceptNetworkRequests_def)
  then show ?thesis
    by (simp add: constructor_def Let_def consistent_init)
qed

lemma consistent_load: "consistent (protection_load pg e)"
  unfolding protection_load_def loader_def
  by (intro consistent_and_then)
     (simp_all add: consistent_console_call consistent_fresh consistent_constructor
       consistent_sched)

lemma consistent_session: "consistent (session pg e evs)"
  by (simp add: session_def consistent_run consistent_load)


subsection \<open>What keeps belief open\<close>

lemma poll_props_when_open: "isDevToolsOpen st \<Longrightarrow> poll_props e ps st = (Returned, st)"
  by (induction ps) simp_all

lemma handle_each_when_open: "isDevToolsOpen st \<Longrightarrow> handle_each n e st = (Returned, st)"
  by (induction n) (simp_all add: handle_when_open and_then_def)

lemma console_improved_when_open:
  "isDevToolsOpen st \<Longrightarrow> detectByConsoleImproved e st = (Returned, st)"
  by (simp add: detectByConsoleImproved_def console_effect_when_open)

lemma detect_when_open:
  "isDevToolsOpen st \<Longrightarrow> snd (detectDevToolsMultipleMethods e st) = st"
  by (simp add: detectDevToolsMultipleMethods_def Let_def console_effect_when_open
      console_call_def diverted_handle_when_open and_then_def handle_when_open)

lemma run_task_stays_open:
  "isDevToolsOpen st \<Longrightarrow> t \<noteq> TConfirmClosed \<Longrightarrow> isDevToolsOpen (snd (run_task t e st))"
  by (cases t) (simp_all add: run_task_def detectByWindowSize_def checkIfReallyClosed_def
      detect_when_open console_improved_when_open element_check_def handle_when_open
      showEnhancedProtectionOverlay_def split: option.splits)

lemma tick_stays_open:
  "isDevToolsOpen st \<Longrightarrow> isDevToolsOpen (snd (detectByMultipleMethods e st))"
  by (simp add: detectByMultipleMethods_def console_improved_when_open and_then_def
      detectByElementManipulation_def detectByWindowSize_def checkIfReallyClosed_def)

lemma confirm_open_iff:
  "isDevToolsOpen st \<Longrightarrow>
   isDevToolsOpen (snd (confirm_closed e st)) \<longleftrightarrow> closedCount st e < 2"
  by (auto simp add: confirm_closed_def Let_def console_effect_when_open deactivate_closed)

lemma closedCount_timeouts: "closedCount (st\<lparr> timeouts := ts \<rparr>) e = closedCount st e"
  by (simp add: closedCount_def console_check_def console_diverted_def)

lemma fetch_stays_open:
  "isDevToolsOpen st \<Longrightarrow> isDevToolsOpen (snd (call_fetch args e st))"
  by (simp add: call_fetch_def fetch_via_def rejecting_fetch_def console_call_def
      diverted_handle_when_open split: fetch_fn.splits)

lemma xhr_stays_open:
  "isDevToolsOpen st \<Longrightarrow> isDevToolsOpen (snd (call_xhr_open args e st))"
  by (simp add: call_xhr_open_def open_via_def throwing_open_def console_call_def
      diverted_handle_when_open split: xhr_fn.splits)

lemma step_closes:
  assumes "isDevToolsOpen st" "\<not> isDevToolsOpen (step ev st)"
  shows "\<exists>e. ev = Timeout TConfirmClosed e \<and> pending TConfirmClosed st \<and> 2 \<le> closedCount st e"
proof (cases ev)
  case (Timeout t e)
  show ?thesis
  proof (cases "t = TConfirmClosed")
    case True
    with assms Timeout have p: "pending TConfirmClosed st"
      by (auto simp add: step_def split: if_splits)
    with assms Timeout True
    have "\<not> isDevToolsOpen (snd (confirm_closed e
            (st\<lparr> timeouts := remove_task TConfirmClosed (timeouts st) \<rparr>)))"
      by (simp add: step_def run_task_def)
    with assms(1) have "2 \<le> closedCount st e"
      using confirm_open_iff [of "st\<lparr> timeouts := remove_task TConfirmClosed (timeouts st) \<rparr>" e]
      by (simp add: closedCount_timeouts)
    with p Timeout True show ?thesis by simp
  next
    case False
    with assms Timeout show ?thesis
      using run_task_stays_open [of "st\<lparr> timeouts := remove_task t (timeouts st) \<rparr>" t e]
      by (auto simp add: step_def split: if_splits)
  qed
qed (use assms in \<open>auto simp add: step_def tick_stays_open globals_poll_def poll_props_when_open
      flood_tick_def console_effect_when_open setupAdvancedProtection_def blockBypassMethods_def
      setupDOMProtection_def injectProtectionCSS_def blockKeyEvent_def blockContextMenu_def
      mousedown_def handle_when_open overlay_removed_def attribute_mutations_def
      handle_each_when_open fetch_stays_open xhr_stays_open stopConsoleFlood_def
      split: if_splits\<close>)

lemma pending_delay:
  "consistent st \<Longrightarrow> pending TConfirmClosed st \<Longrightarrow> (1000, TConfirmClosed) \<in> set (timeouts st)"
  by (auto simp add: consistent_def pending_def list_all_iff)

lemma confirm_step:
  assumes "isDevToolsOpen st"
  shows "isDevToolsOpen (step (Timeout TConfirmClosed e) st)
         \<longleftrightarrow> \<not> (pending TConfirmClosed st \<and> 2 \<le> closedCount st e)"
  using assms confirm_open_iff [of "st\<lparr> timeouts := remove_task TConfirmClosed (timeouts st) \<rparr>" e]
  by (auto simp add: step_def run_task_def closedCount_timeouts)

lemma closedCount_unfolded:
  "closedCount st e =
     (if outerHeight e - innerHeight e < 100 \<and> outerWidth e - innerWidth e < 100 then 1 else 0)
   + (if console_diverted st \<or> console_throws e \<or> \<not> console_coerces e then 1 else 0)
   + (if debugger_elapsed e 0 < 50 then 1 else 0)"
  by (simp add: closedCount_def size_check_def console_check_def timing_check_def)

text \<open>
  C2. While belief is open in a session, the 200 ms tick leaves it open whatever the
  probes report. The only event that closes it is the timeout callback scheduled by
  \<open>checkIfReallyClosed\<close>, which is registered with a delay of 1000 ms and deactivates
  exactly when at least two of its three checks pass: both size gaps under 100, the
  console test object not coerced (or logging threw, or the wrapped console swallowed
  the call), and the debugger statement under 50 ms.
\<close>

theorem closing_needs_confirmation:
  assumes "isDevToolsOpen (session pg e0 evs)"
  shows "isDevToolsOpen (step (IntervalTick e) (session pg e0 evs))
     \<and> (\<not> isDevToolsOpen (step ev (session pg e0 evs)) \<longrightarrow>
          (\<exists>e'. ev = Timeout TConfirmClosed e'
                \<and> (1000, TConfirmClosed) \<in> set (timeouts (session pg e0 evs))
                \<and> 2 \<le> closedCount (session pg e0 evs) e'))
     \<and> (isDevToolsOpen (step (Timeout TConfirmClosed e) (session pg e0 evs))
          \<longleftrightarrow> \<not> (pending TConfirmClosed (session pg e0 evs)
                  \<and> 2 \<le> closedCount (session pg e0 evs) e))
     \<and> timeouts (checkIfReallyClosed (session pg e0 evs))
          = timeouts (session pg e0 evs) @ [(1000, TConfirmClosed)]
     \<and> closedCount (session pg e0 evs) e =
         (if outerHeight e - innerHeight e < 100 \<and> outerWidth e - innerWidth e < 100 then 1 else 0)
       + (if console_diverted (session pg e0 evs) \<or> console_throws e \<or> \<not> console_coerces e
          then 1 else 0)
       + (if debugger_elapsed e 0 < 50 then 1 else 0)"
proof -
  let ?s = "session pg e0 evs"
  have tick: "isDevToolsOpen (step (IntervalTick e) ?s)"
    using assms by (simp add: step_def tick_stays_open)
  have only: "\<not> isDevToolsOpen (step ev ?s) \<longrightarrow>
          (\<exists>e'. ev = Timeout TConfirmClosed e'
                \<and> (1000, TConfirmClosed) \<in> set (timeouts ?s) \<and> 2 \<le> closedCount ?s e')"
    using step_closes [OF assms, of ev] pending_delay [OF consistent_session, of pg e0 evs]
    by blast
  show ?thesis
    using tick only confirm_step [OF assms, of e] closedCount_unfolded [of ?s e]
    by (simp add: checkIfReallyClosed_def)
qed

theorem closing_needs_confirmation_witness:
  "isDevToolsOpen (session ready_page quiet_env [ContextMenu quiet_env, IntervalTick quiet_env])
   \<and> isDevToolsOpen (step (IntervalTick quiet_env)
        (session ready_page quiet_env [ContextMenu quiet_env, IntervalTick quiet_env]))
   \<and> \<not> isDevToolsOpen (step (Timeout TConfirmClosed quiet_env)
        (session ready_page quiet_env [ContextMenu quiet_env, IntervalTick quiet_env]))
   \<and> (1000, TConfirmClosed)
        \<in> set (timeouts (session ready_page quiet_env [ContextMenu quiet_env, IntervalTick quiet_env]))
   \<and> 2 \<le> closedCount (session ready_page quiet_env [ContextMenu quiet_env, IntervalTick quiet_env])
          quiet_env"
proof -
  have h: "isDevToolsOpen (session ready_page quiet_env [ContextMenu quiet_env, IntervalTick quiet_env])"
    by code_simp
  have c: "\<not> isDevToolsOpen (step (Timeout TConfirmClosed quiet_env)
        (session ready_page quiet_env [ContextMenu quiet_env, IntervalTick quiet_env]))"
    by code_simp
  from closing_needs_confirmation [OF h, of quiet_env "Timeout TConfirmClosed quiet_env"] h c
  show ?thesis by auto
qed


subsection \<open>Disabled globals\<close>

lemma disabled_and_then:
  "globals_disabled (snd r) \<Longrightarrow> (\<And>s. globals_disabled s \<Longrightarrow> globals_disabled (snd (f s)))
   \<Longrightarrow> globals_disabled (snd (and_then r f))"
  by (rule and_then_keeps)

lemma disabled_frame:
  "globals_disabled (st\<lparr> timeouts := ts \<rparr>) = globals_disabled st"
  "globals_disabled (st\<lparr> setup_on_ready := b \<rparr>) = globals_disabled st"
  "globals_disabled (st\<lparr> networkRequests := n \<rparr>) = globals_disabled st"
  "globals_disabled (st\<lparr> isDevToolsOpen := o1 \<rparr>) = globals_disabled st"
  "globals_disabled (st\<lparr> protectionActive := a \<rparr>) = globals_disabled st"
  "globals_disabled (st\<lparr> listeners := l \<rparr>) = globals_disabled st"
  by (simp_all add: globals_disabled_def)

lemma disabled_show:
  "globals_disabled st \<Longrightarrow> globals_disabled (showEnhancedProtectionOverlay st)"
  by (simp add: globals_disabled_def showEnhancedProtectionOverlay_def)

lemma disabled_effect: "globals_disabled st \<Longrightarrow> globals_disabled (console_effect st)"
  by (simp add: console_effect_def diverted_handle_def disabled_show disabled_frame)

lemma disabled_console_call: "globals_disabled st \<Longrightarrow> globals_disabled (snd (console_call e st))"
  by (simp add: console_call_effect disabled_effect)

lemma disabled_activate:
  "globals_disabled st \<Longrightarrow> globals_disabled (snd (activateProtection e st))"
proof -
  assume d: "globals_disabled st"
  have "globals_disabled (snd (and_then (console_call e (st\<lparr> protectionActive := True \<rparr>))
          (\<lambda>st1.
             let st2 = st1\<lparr> body_protection_classes := True \<rparr>;
                 st3 = blockNetworkRequests st2;
                 st4 = startConsoleFlood st3
             in (Returned, applyVisualLock st4))))"
    by (rule disabled_and_then)
       (simp_all add: disabled_console_call disabled_frame d,
        simp add: globals_disabled_def reaction_defs)
  with d show ?thesis by (simp add: activateProtection_def)
qed

lemma disabled_handle:
  "globals_disabled st \<Longrightarrow> globals_disabled (snd (handleDevToolsDetected e st))"
proof -
  assume d: "globals_disabled st"
  have "globals_disabled (snd (and_then (console_call e (st\<lparr> isDevToolsOpen := True \<rparr>))
          (\<lambda>st1. and_then (activateProtection e st1)
             (\<lambda>st2. (Returned, showEnhancedProtectionOverlay st2)))))"
    by (intro disabled_and_then)
       (simp_all add: disabled_console_call disabled_frame d disabled_activate disabled_show)
  with d show ?thesis by (simp add: handleDevToolsDetected_def)
qed

lemma disabled_deactivate:
  "globals_disabled st \<Longrightarrow> globals_disabled (snd (deactivateProtection e st))"
  unfolding deactivateProtection_def
  by (rule disabled_and_then)
     (simp_all add: disabled_console_call disabled_frame,
      simp add: globals_disabled_def reaction_defs split: option.splits)

lemma disabled_poll_props:
  "globals_disabled st \<Longrightarrow> globals_disabled (snd (poll_props e ps st))"
proof (induction ps arbitrary: st)
  case Nil
  then show ?case by simp
next
  case (Cons p ps)
  have "globals_disabled (snd (and_then (handleDevToolsDetected e st) (poll_props e ps)))"
    by (rule disabled_and_then) (simp_all add: disabled_handle Cons)
  with Cons show ?case by simp
qed

lemma disabled_handle_each:
  "globals_disabled st \<Longrightarrow> globals_disabled (snd (handle_each n e st))"
proof (induction n arbitrary: st)
  case 0
  then show ?case by simp
next
  case (Suc n)
  have "globals_disabled (snd (and_then (handleDevToolsDetected e st) (handle_each n e)))"
    by (rule disabled_and_then) (simp_all add: disabled_handle Suc)
  then show ?case by simp
qed

lemma disabled_console_improved:
  "globals_disabled st \<Longrightarrow> globals_disabled (snd (detectByConsoleImproved e st))"
  by (simp add: detectByConsoleImproved_def disabled_effect disabled_handle)

lemma disabled_window_size:
  "globals_disabled st \<Longrightarrow> globals_disabled (detectByWindowSize e st)"
  by (simp add: detectByWindowSize_def checkIfReallyClosed_def disabled_frame)

lemma disabled_multiple:
  "globals_disabled st \<Longrightarrow> globals_disabled (snd (detectByMultipleMethods e st))"
  unfolding detectByMultipleMethods_def
  by (rule disabled_and_then)
     (simp_all add: disabled_console_improved detectByElementManipulation_def disabled_frame
       disabled_window_size)

lemma disabled_detect:
  "globals_disabled st \<Longrightarrow> globals_disabled (snd (detectDevToolsMultipleMethods e st))"
  unfolding detectDevToolsMultipleMethods_def Let_def
  by (auto intro!: disabled_and_then simp add: disabled_effect disabled_console_call
      disabled_handle)

lemma disabled_confirm:
  "globals_disabled st \<Longrightarrow> globals_disabled (snd (confirm_closed e st))"
  by (simp add: confirm_closed_def Let_def disabled_deactivate disabled_effect)

lemma disabled_run_task: "globals_disabled st \<Longrightarrow> globals_disabled (snd (run_task t e st))"
  by (cases t) (simp_all add: run_task_def disabled_window_size disabled_detect
      disabled_console_improved element_check_def disabled_handle disabled_confirm
      disabled_show split: option.splits)

lemma disabled_fetch: "globals_disabled st \<Longrightarrow> globals_disabled (snd (call_fetch args e st))"
  by (auto simp add: call_fetch_def fetch_via_def rejecting_fetch_def Let_def console_call_def
      diverted_handle_def disabled_show disabled_frame
      split: fetch_fn.splits option.splits if_splits)

lemma disabled_xhr: "globals_disabled st \<Longrightarrow> globals_disabled (snd (call_xhr_open args e st))"
  by (auto simp add: call_xhr_open_def open_via_def throwing_open_def Let_def console_call_def
      diverted_handle_def disabled_show disabled_frame
      split: xhr_fn.splits option.splits if_splits)

lemma disabled_step: "globals_disabled st \<Longrightarrow> globals_disabled (step ev st)"
  by (cases ev)
     (simp_all add: step_def disabled_multiple globals_poll_def disabled_poll_props
       flood_tick_def disabled_effect disabled_frame blockKeyEvent_def blockContextMenu_def
       mousedown_def disabled_handle disabled_run_task attribute_mutations_def
       disabled_handle_each disabled_fetch disabled_xhr,
      simp_all add: globals_disabled_def stopConsoleFlood_def setupAdvancedProtection_def
       blockBypassMethods_def setupDOMProtection_def injectProtectionCSS_def overlay_removed_def)

lemma disabled_run: "globals_disabled st \<Longrightarrow> globals_disabled (run evs st)"
  by (induction evs arbitrary: st) (simp_all add: disabled_step)

lemma disabled_after_bypass: "globals_disabled (blockBypassMethods st)"
  by (simp add: globals_disabled_def blockBypassMethods_def)

lemma disabled_calls:
  "globals_disabled st \<Longrightarrow>
   call_eval args st = ThrewError ''eval() is disabled''
   \<and> call_Function args st = ThrewError ''Function constructor is disabled''"
  by (simp add: globals_disabled_def call_eval_def call_Function_def)

subsection \<open>Loading\<close>

lemma and_then_returned: "fst r = Returned \<Longrightarrow> and_then r f = f (snd r)"
  by (cases r) (simp add: and_then_def)

lemma console_call_returns: "\<not> console_throws e \<Longrightarrow> fst (console_call e st) = Returned"
  by (simp add: console_call_def)

lemma activate_returns: "\<not> console_throws e \<Longrightarrow> fst (activateProtection e st) = Returned"
  by (simp add: activateProtection_def and_then_def console_call_def Let_def)

lemma handle_returns: "\<not> console_throws e \<Longrightarrow> fst (handleDevToolsDetected e st) = Returned"
  by (simp add: handleDevToolsDetected_def and_then_returned console_call_returns
      activate_returns)

lemma detect_returns:
  "\<not> console_throws e \<Longrightarrow> fst (detectDevToolsMultipleMethods e st) = Returned"
  by (simp add: detectDevToolsMultipleMethods_def Let_def and_then_returned
      console_call_returns handle_returns)


lemma handle_keeps:
  "intervals (snd (handleDevToolsDetected e st)) = intervals st"
  "timeouts (snd (handleDevToolsDetected e st)) = timeouts st"
  "listeners (snd (handleDevToolsDetected e st)) = listeners st"
  "window_fetch st \<noteq> NativeFetch \<Longrightarrow> window_fetch (snd (handleDevToolsDetected e st)) \<noteq> NativeFetch"
  by (simp_all add: handleDevToolsDetected_def activateProtection_def and_then_def
      console_call_def diverted_handle_def reaction_defs)

lemma console_call_form: "console_call e st = (fst (console_call e st), console_effect st)"
  by (simp add: console_call_def console_effect_def)


lemma load_throwing: "console_throws e \<Longrightarrow> protection_load pg e = fresh"
  by (simp add: protection_load_def loader_def console_call_def console_diverted_def
      and_then_def fresh_def)

text \<open>The record the constructor works on once the fields are set and the wrappers are in.\<close>

lemma constructor_start:
  "constructor pg e fresh = initImmediateDetection pg e (interceptNetworkRequests fresh)"
  by (simp add: constructor_def Let_def fresh_def)

lemma intercepted_fresh:
  "\<not> isDevToolsOpen (interceptNetworkRequests fresh)"
  "\<not> protectionActive (interceptNetworkRequests fresh)"
  "window_fetch (interceptNetworkRequests fresh) \<noteq> NativeFetch"
  "intervals (interceptNetworkRequests fresh) = []"
  "timeouts (interceptNetworkRequests fresh) = []"
  "consistent (interceptNetworkRequests fresh)"
  by (simp_all add: interceptNetworkRequests_def fresh_def consistent_def)

lemma load_quiet:
  assumes "\<not> console_throws e"
  shows "protection_load pg e =
     (let st1 = snd (detectDevToolsMultipleMethods e (interceptNetworkRequests fresh));
          st2 = startAggressiveDetection (disableAllDevToolsAccess st1);
          st3 = (if readyState_loading pg
                 then st2\<lparr> setup_on_ready := True,
                           listeners := listeners st2 @ [''DOMContentLoaded''] \<rparr>
                 else setupAdvancedProtection st2);
          st4 = console_effect st3
      in st4\<lparr> timeouts := timeouts st4 @ [(500, TDetectDevToolsMultipleMethods)] \<rparr>)"
proof -
  have a: "console_call e fresh = (Returned, fresh)"
    using assms by (simp add: console_call_def console_diverted_def fresh_def)
  have b: "\<And>st. console_call e st = (Returned, console_effect st)"
    using assms by (simp add: console_call_def console_effect_def)
  have c: "constructor pg e fresh =
     (Returned,
      let st1 = snd (detectDevToolsMultipleMethods e (interceptNetworkRequests fresh));
          st2 = startAggressiveDetection (disableAllDevToolsAccess st1)
      in if readyState_loading pg
         then st2\<lparr> setup_on_ready := True,
                   listeners := listeners st2 @ [''DOMContentLoaded''] \<rparr>
         else setupAdvancedProtection st2)"
    by (simp add: constructor_start initImmediateDetection_def
        and_then_returned [OF detect_returns [OF assms]] Let_def)
  show ?thesis
    unfolding protection_load_def loader_def
    by (simp only: a and_then_Returned c) (simp add: b and_then_Returned Let_def)
qed






text \<open>
  C10. Once \<open>blockBypassMethods\<close> has run, every call of \<open>window.eval\<close> and of
  \<open>window.Function\<close> throws, with any arguments, after any sequence of events and so in
  both belief states, and also right after \<open>deactivateProtection\<close>; on a page that is
  past loading and whose console accepts the loader's messages this holds from the end
  of the script's load on.
\<close>

theorem eval_and_Function_stay_disabled:
  "call_eval args (run evs (blockBypassMethods st)) = ThrewError ''eval() is disabled''
   \<and> call_Function args (run evs (blockBypassMethods st))
       = ThrewError ''Function constructor is disabled''
   \<and> call_eval args (snd (deactivateProtection e' (run evs (blockBypassMethods st))))
       = ThrewError ''eval() is disabled''
   \<and> call_Function args (snd (deactivateProtection e' (run evs (blockBypassMethods st))))
       = ThrewError ''Function constructor is disabled''
   \<and> (\<not> console_throws e \<longrightarrow>
        call_eval args (session (pg\<lparr> readyState_loading := False \<rparr>) e evs)
          = ThrewError ''eval() is disabled''
      \<and> call_Function args (session (pg\<lparr> readyState_loading := False \<rparr>) e evs)
          = ThrewError ''Function constructor is disabled'')"
proof -
  have a: "globals_disabled (run evs (blockBypassMethods st))"
    by (simp add: disabled_run disabled_after_bypass)
  have b: "globals_disabled (session (pg\<lparr> readyState_loading := False \<rparr>) e evs)"
    if q: "\<not> console_throws e"
  proof -
    have "globals_disabled (protection_load (pg\<lparr> readyState_loading := False \<rparr>) e)"
      by (simp add: load_quiet [OF q] Let_def disabled_frame disabled_effect
          setupAdvancedProtection_def disabled_after_bypass)
    then show ?thesis by (simp add: session_def disabled_run)
  qed
  show ?thesis
    using disabled_calls [OF a, of args]
      disabled_calls [OF disabled_deactivate [OF a], of args e']
      disabled_calls [OF b, of args]
    by simp
qed

theorem eval_and_Function_stay_disabled_witness:
  "call_eval [Some ''1 + 1''] (run [ContextMenu quiet_env] (blockBypassMethods fresh))
     = ThrewError ''eval() is disabled''
   \<and> call_Function [Some ''return 1'']
       (snd (deactivateProtection quiet_env (run [ContextMenu quiet_env] (blockBypassMethods fresh))))
     = ThrewError ''Function constructor is disabled''
   \<and> \<not> console_throws quiet_env
   \<and> call_eval [Some ''1 + 1''] (session ready_page quiet_env [ContextMenu quiet_env])
     = ThrewError ''eval() is disabled''"
proof -
  have c: "\<not> console_throws quiet_env"
    by (simp add: quiet_env_def)
  have r: "ready_page\<lparr> readyState_loading := False \<rparr> = ready_page"
    by (simp add: ready_page_def)
  from c
    eval_and_Function_stay_disabled [of "[Some ''1 + 1'']" "[ContextMenu quiet_env]" fresh
      quiet_env quiet_env ready_page]
    eval_and_Function_stay_disabled [of "[Some ''return 1'']" "[ContextMenu quiet_env]" fresh
      quiet_env quiet_env ready_page]
  show ?thesis by (simp add: r)
qed


subsection \<open>What stays installed\<close>


lemma kept_handle:
  "listeners (snd (handleDevToolsDetected e st)) = listeners st
   \<and> intervals (snd (handleDevToolsDetected e st)) = intervals st"
  by (simp add: handle_keeps)















subsection \<open>Trigger paths\<close>

lemma detect_closed_inactive:
  assumes "\<not> isDevToolsOpen st" "\<not> protectionActive st"
  shows "detectDevToolsMultipleMethods e st
           = (if 2 \<le> detectionCount st e
              then (if console_throws e then (Threw, st) else handleDevToolsDetected e st)
              else (Returned, st))"
  using assms
  by (simp add: detectDevToolsMultipleMethods_def Let_def console_effect_inactive
      console_call_inactive and_then_def)

lemma inactive_when_closed: "consistent st \<Longrightarrow> \<not> isDevToolsOpen st \<Longrightarrow> \<not> protectionActive st"
  by (auto simp add: consistent_def)


lemma console_improved_opens:
  "console_coerces e \<Longrightarrow> isDevToolsOpen (snd (detectByConsoleImproved e st))"
  by (simp add: detectByConsoleImproved_def console_effect_def diverted_handle_open
      diverted_handle_when_open handle_open)

lemma tick_console_opens:
  assumes "console_coerces e"
  shows "isDevToolsOpen (snd (detectByMultipleMethods e st))"
  unfolding detectByMultipleMethods_def
  by (rule open_and_then)
     (simp_all add: console_improved_opens [OF assms] detectByElementManipulation_def
       detectByWindowSize_def checkIfReallyClosed_def)


section \<open>Properties of the lightweight variant\<close>

lemmas shield_defs = setState_def Let_def dispatch_def showBanner_def setGlobalBlur_def

lemma setState_open: "state_open (setState b r st) = b"
  by (simp add: shield_defs)

lemma emits_iff: "emits b r st \<longleftrightarrow> (state_open st \<noteq> b \<or> \<not> falsy r)"
  by (simp add: emits_def shield_defs)

lemma feed_snoc: "feed (ds @ [(b, r)]) st = setState b r (feed ds st)"
  by (induction ds arbitrary: st) auto

lemma poll_emits: "length (window_events (poll e st)) = Suc (length (window_events st))"
  by (simp add: poll_def shield_defs falsy_def timeHeuristic_def sizeHeuristic_def
      split: option.splits)

lemma poll_open: "state_open (poll e st) = (timeHeuristic e \<noteq> None \<or> sizeHeuristic e \<noteq> None)"
  by (auto simp add: poll_def Let_def setState_open split: option.splits)

lemma quiet_time: "timeHeuristic quiet_env = None"
  by (simp add: timeHeuristic_def quiet_env_def threshold_def)

lemma quiet_size: "sizeHeuristic quiet_env = None"
  by (simp add: sizeHeuristic_def quiet_env_def)



section \<open>The claims\<close>

text \<open>
  C1 (as amended). For every sequence of decisions fed to \<open>setState\<close>, the stored \<open>open\<close>
  value equals the most recent decision. A change event is emitted for a decision exactly
  when it differs from the preceding \<open>open\<close> value or carries a non-empty reason; every
  \<open>poll\<close> passes a reason, so every poll emits one event, also when its verdict equals
  the current belief. In the aggressive variant a repeated \<open>handleDevToolsDetected\<close>
  returns at once and changes nothing.
\<close>

theorem belief_follows_decisions:
  "state_open (feed (ds @ [(b, r)]) st) = b
   \<and> (emits b r (feed ds st) \<longleftrightarrow> (state_open (feed ds st) \<noteq> b \<or> \<not> falsy r))
   \<and> length (window_events (poll e (feed ds st))) = Suc (length (window_events (feed ds st)))
   \<and> handleDevToolsDetected e (snd (handleDevToolsDetected e' p))
       = (Returned, snd (handleDevToolsDetected e' p))"
  by (simp add: feed_snoc setState_open emits_iff poll_emits handle_idem)

theorem belief_follows_decisions_witness:
  "state_open (feed ([(True, Some ''viewport-gap'')] @ [(False, Some ''poll'')]) STATE0) = False
   \<and> emits False (Some ''poll'') (feed [(True, Some ''viewport-gap'')] STATE0)
   \<and> emits False (Some ''poll'') (feed [] STATE0)
   \<and> \<not> emits False None (feed [] STATE0)"
  using belief_follows_decisions [of "[(True, Some ''viewport-gap'')]" False "Some ''poll''" STATE0
      quiet_env quiet_env fresh]
    belief_follows_decisions [of "[]" False "Some ''poll''" STATE0 quiet_env quiet_env fresh]
    belief_follows_decisions [of "[]" False None STATE0 quiet_env quiet_env fresh]
  by (simp add: falsy_def STATE0_def setState_open)

text \<open>
  C1 as stated fails: on the initial state, whose belief is closed, a poll that finds
  nothing decides closed again and still emits an event, and so does the next one.
\<close>

theorem repeated_poll_emits_counterexample:
  "\<not> (emits False (Some ''poll'') STATE0 \<longleftrightarrow> state_open STATE0 \<noteq> False)
   \<and> state_open (poll quiet_env STATE0) = state_open STATE0
   \<and> length (window_events (poll quiet_env (poll quiet_env STATE0))) = 2"
  by (simp add: emits_iff falsy_def poll_emits poll_open quiet_time quiet_size)
     (simp add: STATE0_def)

text \<open>
  C9. \<open>dispatch\<close> invokes every registered callback with the detail of the event it
  dispatches, whatever the event: a callback registered through \<open>onChange\<close> receives the
  tamper details \<open>{type, detail}\<close>, the \<open>undefined\<close> detail of the ready event, and the
  \<open>{open, reason}\<close> detail of a belief change.
\<close>

theorem dispatch_reaches_every_listener:
  "invocations (dispatch name d st) = invocations st @ map (\<lambda>cb. (cb, d)) (state_listeners st)
   \<and> cb \<in> set (state_listeners (onChange cb st))
   \<and> (cb, Tamper ''overlay-removed'' None)
       \<in> set (invocations (mo_callback (host_removed (onChange cb st))))
   \<and> (cb, Tamper ''integrity-check-failed'' (Some err))
       \<in> set (invocations (integrity_check_failed err (onChange cb st)))
   \<and> (cb, Undefined) \<in> set (invocations (shield_ready (onChange cb st)))
   \<and> (cb, Change b (c # cs)) \<in> set (invocations (setState b (Some (c # cs)) (onChange cb st)))"
  by (auto simp add: dispatch_def onChange_def mo_callback_def host_removed_def
      integrity_check_failed_def shield_ready_def setState_def Let_def showBanner_def
      setGlobalBlur_def falsy_def)





lemma effect_open_consistent:
  "consistent st \<Longrightarrow> isDevToolsOpen (console_effect st) = isDevToolsOpen st"
  by (auto simp add: console_effect_def console_diverted_def consistent_def
      diverted_handle_when_open)

lemma load_open_iff:
  assumes "\<not> console_throws e"
  shows "isDevToolsOpen (protection_load pg e) \<longleftrightarrow> 2 \<le> detectionCount fresh e"
proof -
  let ?s0 = "interceptNetworkRequests fresh"
  let ?s1 = "snd (detectDevToolsMultipleMethods e ?s0)"
  let ?s2 = "startAggressiveDetection (disableAllDevToolsAccess ?s1)"
  let ?s3 = "if readyState_loading pg
             then ?s2\<lparr> setup_on_ready := True, listeners := listeners ?s2 @ [''DOMContentLoaded''] \<rparr>
             else setupAdvancedProtection ?s2"
  have c: "detectionCount ?s0 e = detectionCount fresh e"
    by (simp add: detectionCount_def verdicts_def method_console_def console_diverted_def
        interceptNetworkRequests_def fresh_def)
  have d: "isDevToolsOpen ?s1 \<longleftrightarrow> 2 \<le> detectionCount fresh e"
    using assms
    by (simp add: detect_closed_inactive [OF intercepted_fresh(1) intercepted_fresh(2)] c
        handle_open intercepted_fresh)
  have c1: "consistent ?s1"
    by (rule consistent_detect [OF intercepted_fresh(6)])
  have c3: "consistent ?s3"
    using c1
    by (simp add: startAggressiveDetection_def disableAllDevToolsAccess_def consistent_frame
        consistent_setup)
  have o3: "isDevToolsOpen ?s3 = isDevToolsOpen ?s1"
    by (simp add: startAggressiveDetection_def disableAllDevToolsAccess_def
        setupAdvancedProtection_def blockBypassMethods_def setupDOMProtection_def
        injectProtectionCSS_def)
  have "isDevToolsOpen (protection_load pg e) = isDevToolsOpen (console_effect ?s3)"
    by (simp add: load_quiet [OF assms] Let_def)
  then show ?thesis
    using effect_open_consistent [OF c3] o3 d by simp
qed

lemma count_console: "detectionCount (session ready_page quiet_env []) console_env = 1"
  by code_simp

lemma count_paused: "detectionCount (session ready_page quiet_env []) paused_env = 2"
  by code_simp

text \<open>
  C6 (as amended). In a closed state of a session, \<open>detectDevToolsMultipleMethods\<close> (run
  at load, 300 ms after blur or focus and 500 ms after the page becomes visible) with
  exactly one triggered method leaves the state as it is, and with two or more it opens
  belief when the console accepts its message; the same holds for the call made while
  the script loads. The 200 ms tick does not count: there a coerced console probe alone
  opens belief.
\<close>

theorem quorum_of_two:
  assumes "\<not> isDevToolsOpen (session pg e0 evs)"
  shows "(detectionCount (session pg e0 evs) e = 1 \<longrightarrow>
            detectDevToolsMultipleMethods e (session pg e0 evs) = (Returned, session pg e0 evs))
       \<and> (2 \<le> detectionCount (session pg e0 evs) e \<and> \<not> console_throws e \<longrightarrow>
            isDevToolsOpen (snd (detectDevToolsMultipleMethods e (session pg e0 evs))))
       \<and> (\<not> console_throws e \<longrightarrow>
            (isDevToolsOpen (protection_load pg e) \<longleftrightarrow> 2 \<le> detectionCount fresh e))
       \<and> (console_coerces e \<and> 200 \<in> set (intervals (session pg e0 evs)) \<longrightarrow>
            isDevToolsOpen (step (IntervalTick e) (session pg e0 evs)))"
proof -
  let ?s = "session pg e0 evs"
  have i: "\<not> protectionActive ?s"
    using consistent_session assms by (rule inactive_when_closed)
  have d: "detectDevToolsMultipleMethods e ?s
           = (if 2 \<le> detectionCount ?s e
              then (if console_throws e then (Threw, ?s) else handleDevToolsDetected e ?s)
              else (Returned, ?s))"
    using assms i by (rule detect_closed_inactive)
  show ?thesis
    using load_open_iff [of e pg] tick_console_opens [of e ?s]
    by (simp add: d handle_open step_def)
qed

theorem quorum_of_two_witness:
  "\<not> isDevToolsOpen (session ready_page quiet_env [])
   \<and> detectionCount (session ready_page quiet_env []) console_env = 1
   \<and> \<not> isDevToolsOpen (snd (detectDevToolsMultipleMethods console_env
           (session ready_page quiet_env [])))
   \<and> 2 \<le> detectionCount (session ready_page quiet_env []) paused_env
   \<and> \<not> console_throws paused_env
   \<and> isDevToolsOpen (snd (detectDevToolsMultipleMethods paused_env
         (session ready_page quiet_env [])))
   \<and> console_coerces console_env
   \<and> 200 \<in> set (intervals (session ready_page quiet_env []))
   \<and> isDevToolsOpen (step (IntervalTick console_env) (session ready_page quiet_env []))"
proof -
  have h: "\<not> isDevToolsOpen (session ready_page quiet_env [])"
    by code_simp
  have t: "\<not> console_throws paused_env" "console_coerces console_env"
    by (simp_all add: paused_env_def console_env_def quiet_env_def)
  have i: "200 \<in> set (intervals (session ready_page quiet_env []))"
    by code_simp
  from h t i count_console count_paused
    quorum_of_two [OF h, of console_env] quorum_of_two [OF h, of paused_env]
  show ?thesis by simp
qed

text \<open>
  C6 as stated fails: on a closed belief, a 200 ms tick in which the console probe is the
  only probe that triggers (the detection count is 1, the window is not suspicious, the
  computed style is as expected) opens belief.
\<close>

theorem single_probe_tick_opens_counterexample:
  "\<not> isDevToolsOpen (session ready_page quiet_env [])
   \<and> detectionCount (session ready_page quiet_env []) console_env = 1
   \<and> \<not> suspiciousSize console_env
   \<and> computed_position console_env = Some ''absolute''
   \<and> isDevToolsOpen (step (IntervalTick console_env) (session ready_page quiet_env []))"
  by code_simp


text \<open>
  C3 (the code departs from it). A detection blocks the request functions and the
  confirmation pass is meant to put the originals back. When the console throws while
  that pass runs, \<open>deactivateProtection\<close> has reset both flags and stops at its log,
  before \<open>restoreNetworkRequests\<close>: belief is closed and \<open>fetch\<close> still rejects and \<open>open\<close>
  still throws. With a console that accepts the message the same run ends with the
  caller's arguments at the native functions.
\<close>

theorem closed_but_still_blocked:
  "\<not> isDevToolsOpen (session ready_page quiet_env interrupted_closing_run)
   \<and> \<not> protectionActive (session ready_page quiet_env interrupted_closing_run)
   \<and> window_fetch (session ready_page quiet_env interrupted_closing_run) = RejectingFetch
   \<and> xhr_open (session ready_page quiet_env interrupted_closing_run) = ThrowingOpen
   \<and> fst (call_fetch [Some ''/api/videos''] quiet_env
        (session ready_page quiet_env interrupted_closing_run)) = RejectedBlocked
   \<and> fst (call_xhr_open [Some ''GET'', Some ''/api/videos''] quiet_env
        (session ready_page quiet_env interrupted_closing_run)) = OpenThrew
   \<and> fst (call_fetch [Some ''/api/videos''] quiet_env
        (session ready_page quiet_env closing_run)) = Transport [Some ''/api/videos'']
   \<and> fst (call_xhr_open [Some ''GET'', Some ''/api/videos''] quiet_env
        (session ready_page quiet_env closing_run))
       = OpenTransport [Some ''GET'', Some ''/api/videos'']"
  by code_simp

text \<open>
  C7 (the code departs from it). The ratio-based probe of \<open>detectByWindowSize\<close> is meant
  to trigger only for a viewport well below the screen size together with a large gap.
  With a height gap of 350 it triggers, and schedules the console probe, although the
  viewport keeps more than 0.7 of the screen in both directions.
\<close>

theorem large_gap_triggers_at_any_ratio:
  "suspiciousSize tall_gap_env
   \<and> \<not> js_lt (js_div (innerHeight tall_gap_env) (screenHeight tall_gap_env)) (7 / 10)
   \<and> \<not> js_lt (js_div (innerWidth tall_gap_env) (screenWidth tall_gap_env)) (7 / 10)
   \<and> outerHeight tall_gap_env - innerHeight tall_gap_env = 350
   \<and> timeouts (detectByWindowSize tall_gap_env fresh) = [(200, TDetectByConsoleImproved)]"
  by (simp add: suspiciousSize_def detectByWindowSize_def tall_gap_env_def quiet_env_def
      js_lt_def js_div_def fresh_def)

text \<open>
  C8 (the code departs from it). After a detection the overlay exists and belief is
  open. The confirmation pass then closes belief and \<open>deactivateProtection\<close> removes the
  overlay, but the overlay's own observer sees that removal too and schedules a
  recreation; when that timeout fires the overlay is back while belief is closed.
\<close>

theorem overlay_returns_after_closing:
  "isDevToolsOpen (session ready_page quiet_env [ContextMenu quiet_env])
   \<and> overlay_present (session ready_page quiet_env [ContextMenu quiet_env])
   \<and> \<not> isDevToolsOpen (session ready_page quiet_env closing_run)
   \<and> \<not> overlay_present (session ready_page quiet_env closing_run)
   \<and> (100, TShowOverlay) \<in> set (timeouts (session ready_page quiet_env closing_run))
   \<and> \<not> isDevToolsOpen (session ready_page quiet_env (closing_run @ [Timeout TShowOverlay quiet_env]))
   \<and> overlay_present (session ready_page quiet_env (closing_run @ [Timeout TShowOverlay quiet_env]))"
  by code_simp

end
